theory Spec2Isabelle
  imports Complex_Main
begin

section \<open>Python values, exceptions and effects\<close>

text \<open>
  The three scripts (\<^verbatim>\<open>polymarket.py\<close>, \<^verbatim>\<open>main.py\<close>, \<^verbatim>\<open>goldsky.py\<close>) read JSON-shaped
  dictionaries, convert amounts with \<^verbatim>\<open>float(...)\<close>, and print.

  Numbers: a Python float is modelled by the rational number it stands for. Rounding of
  binary64, infinities and NaN are not modelled; the concrete amounts used below
  (60000000000, 0.5, 20000, 10^6) are exactly representable in binary64.

  A dictionary with a fixed set of keys is a record of options: \<open>None\<close> is an absent key,
  and subscripting an absent key raises \<^verbatim>\<open>KeyError\<close>.

  \<open>exn\<close> models instances of Python's \<^verbatim>\<open>Exception\<close> class, the ones an
  \<^verbatim>\<open>except Exception\<close> clause catches: \<open>RequestError\<close> stands for what the network clients
  raise, with its message, \<open>MarkupError\<close> for what the console raises on a text it cannot
  render. Interrupts of the process are not modelled.
\<close>

datatype exn =
    KeyError string
  | ValueError
  | RequestError string
  | MarkupError

text \<open>The text or number stored under a numeric key, as \<^verbatim>\<open>float(...)\<close> sees it.\<close>

datatype scalar = Num rat | NotNum

fun float_py :: "scalar \<Rightarrow> exn + rat" where
  "float_py (Num q) = Inr q"
| "float_py NotNum = Inl ValueError"

text \<open>\<^verbatim>\<open>int(x)\<close> on a float truncates towards zero.\<close>

definition int_py :: "rat \<Rightarrow> int" where
  "int_py x = (if 0 \<le> x then \<lfloor>x\<rfloor> else \<lceil>x\<rceil>)"

text \<open>\<^verbatim>\<open>d[k]\<close> on a dictionary.\<close>

fun subscript :: "string \<Rightarrow> 'a option \<Rightarrow> exn + 'a" where
  "subscript k None = Inl (KeyError k)"
| "subscript k (Some v) = Inr v"

text \<open>\<^verbatim>\<open>d.get(k, default)\<close>.\<close>

fun get_default :: "'a option \<Rightarrow> 'a \<Rightarrow> 'a" where
  "get_default None d = d"
| "get_default (Some v) d = v"

text \<open>Sequencing of computations that may raise: the first exception wins.\<close>

fun and_then :: "exn + 'a \<Rightarrow> ('a \<Rightarrow> exn + 'b) \<Rightarrow> exn + 'b" where
  "and_then (Inl e) f = Inl e"
| "and_then (Inr x) f = f x"

text \<open>\<^verbatim>\<open>str.upper()\<close> on ASCII text.\<close>

definition upper_char :: "char \<Rightarrow> char" where
  "upper_char c =
     (let n = (of_char c :: nat) in if 97 \<le> n \<and> n \<le> 122 then char_of (n - 32) else c)"

definition upper :: "string \<Rightarrow> string" where
  "upper s = map upper_char s"

text \<open>
  \<^verbatim>\<open>sorted(xs, key=k, reverse=True)\<close>: a stable sort, largest key first; elements with equal
  keys keep their input order.
\<close>

definition sorted_reverse :: "('a \<Rightarrow> rat) \<Rightarrow> 'a list \<Rightarrow> 'a list" where
  "sorted_reverse k xs = sort_key (\<lambda>x. - k x) xs"


section \<open>polymarket.py: the REST polling loop\<close>

definition THRESHOLD_USD :: rat where
  "THRESHOLD_USD = 7500"

text \<open>One element of the JSON array returned by the trades endpoint.\<close>

record rest_trade =
  transactionHash :: "string option"
  price :: "scalar option"
  trade_size :: "scalar option"
  side :: "string option"
  title :: "string option"
  outcome :: "string option"
  maker :: "string option"
  taker :: "string option"
  rest_timestamp :: "int option"

text \<open>The panel \<^verbatim>\<open>print_trade\<close> hands to the console (number formatting left out).\<close>

record panel =
  panel_title :: string
  border_style :: string
  panel_side :: string
  panel_usd :: rat
  panel_price :: rat
  panel_size :: rat
  panel_outcome :: string
  panel_maker :: string
  panel_taker :: string
  panel_tx :: string
  panel_time :: int

text \<open>\<^verbatim>\<open>float(t["price"]) * float(t["size"])\<close>, evaluated left to right.\<close>

definition usd_value :: "rest_trade \<Rightarrow> exn + rat" where
  "usd_value t =
     and_then (subscript ''price'' (price t)) (\<lambda>p.
     and_then (float_py p) (\<lambda>pf.
     and_then (subscript ''size'' (trade_size t)) (\<lambda>s.
     and_then (float_py s) (\<lambda>sf.
     Inr (pf * sf)))))"

text \<open>
  \<^verbatim>\<open>print_trade\<close>: the panel is printed by the last statement, so an exception raised
  while it is built prints nothing.
\<close>

definition print_trade :: "rest_trade \<Rightarrow> exn + panel" where
  "print_trade t =
     and_then (usd_value t) (\<lambda>usd.
     and_then (subscript ''side'' (side t)) (\<lambda>sd.
     and_then (subscript ''title'' (title t)) (\<lambda>ttl.
     and_then (subscript ''price'' (price t)) (\<lambda>p.
     and_then (float_py p) (\<lambda>pf.
     and_then (subscript ''size'' (trade_size t)) (\<lambda>s.
     and_then (float_py s) (\<lambda>sf.
     and_then (subscript ''transactionHash'' (transactionHash t)) (\<lambda>tx.
     and_then (subscript ''timestamp'' (rest_timestamp t)) (\<lambda>ts.
     Inr \<lparr> panel_title = ttl,
           border_style = (if upper sd = ''BUY'' then ''green'' else ''red''),
           panel_side = upper sd,
           panel_usd = usd,
           panel_price = pf,
           panel_size = sf,
           panel_outcome = get_default (outcome t) ''?'',
           panel_maker = take 10 (get_default (maker t) ''?''),
           panel_taker = take 10 (get_default (taker t) ''?''),
           panel_tx = take 16 tx,
           panel_time = ts \<rparr>)))))))))"

text \<open>
  The state of \<^verbatim>\<open>main\<close>: the \<^verbatim>\<open>seen\<close> set, the trades printed so far (each with the
  transaction hash \<^verbatim>\<open>tx\<close> it was printed under), and the exception that ended the run,
  if one did.
\<close>

record run =
  seen :: "string set"
  printed :: "(string \<times> panel) list"
  raised :: "exn option"

text \<open>The body of \<^verbatim>\<open>for t in trades\<close>, lines 49 to 56.\<close>

definition loop_body :: "run \<Rightarrow> rest_trade \<Rightarrow> run" where
  "loop_body r t =
     (case subscript ''transactionHash'' (transactionHash t) of
        Inl e \<Rightarrow> r\<lparr>raised := Some e\<rparr>
      | Inr tx \<Rightarrow>
          if tx \<in> seen r then r
          else
            (let r1 = r\<lparr>seen := insert tx (seen r)\<rparr> in
             case usd_value t of
               Inl e \<Rightarrow> r1\<lparr>raised := Some e\<rparr>
             | Inr v \<Rightarrow>
                 if v \<ge> THRESHOLD_USD then
                   (case print_trade t of
                      Inl e \<Rightarrow> r1\<lparr>raised := Some e\<rparr>
                    | Inr p \<Rightarrow> r1\<lparr>printed := printed r1 @ [(tx, p)]\<rparr>)
                 else r1))"

text \<open>\<^verbatim>\<open>for t in trades\<close>: an exception leaves the loop, nothing catches it.\<close>

fun for_trades :: "run \<Rightarrow> rest_trade list \<Rightarrow> run" where
  "for_trades r [] = r"
| "for_trades r (t # ts) =
     (let r' = loop_body r t in
      if raised r' = None then for_trades r' ts else r')"

text \<open>
  \<^verbatim>\<open>while True\<close>: the loop never returns, so a run is observed on the fetches it has made
  so far. Each element of the list is the outcome of one \<^verbatim>\<open>fetch_trades(100)\<close>: the
  decoded array, or the exception of \<^verbatim>\<open>requests.get\<close> or \<^verbatim>\<open>raise_for_status\<close>.
\<close>

fun while_true :: "run \<Rightarrow> (exn + rest_trade list) list \<Rightarrow> run" where
  "while_true r [] = r"
| "while_true r (Inl e # fetches) = r\<lparr>raised := Some e\<rparr>"
| "while_true r (Inr trades # fetches) =
     (let r' = for_trades r trades in
      if raised r' = None then while_true r' fetches else r')"

definition main :: "(exn + rest_trade list) list \<Rightarrow> run" where
  "main fetches = while_true \<lparr>seen = {}, printed = [], raised = None\<rparr> fetches"


section \<open>Effects of goldsky.py and main.py\<close>

text \<open>
  Both dashboards talk to a GraphQL endpoint, \<^verbatim>\<open>goldsky.py\<close> also to a blockchain node
  and to a messaging bot, and both print to the console. A computation is modelled by
  the list of effects it attempted, in order, and by its outcome: the value returned or
  the exception raised. The answers of the outside world are parameters.
\<close>

datatype document = TRADE_QUERY | MARKETS_QUERY | QUERY | intro_query

datatype gql_value = IntVar int | StrVar string

type_synonym variables = "(string \<times> gql_value) list"

datatype rpc_call = Contract | BlockNumber | GetLogs int int | GetBlock int

text \<open>An alert line: the amount and the market label it is formatted from.\<close>

type_synonym alert = "rat \<times> string"

datatype message =
    SubgraphFetchFailed exn
  | AvailableFields "string list"
  | RpcFallbackLimited exn
  | WhaleAlert alert
  | TopMarkets "string list"
  | NewWhale alert

datatype event =
    Execute document variables
  | Web3 rpc_call
  | Post string alert
  | Print message

type_synonym 'a py = "event list \<times> (exn + 'a)"

text \<open>
  The console: what \<^verbatim>\<open>console.print\<close> answers to a line. The lines of both dashboards are
  markup with upstream text (an exception message, a market label) pasted in, and the
  console raises on markup it cannot parse.
\<close>

type_synonym console = "message \<Rightarrow> exn + unit"

definition return_py :: "'a \<Rightarrow> 'a py" where
  "return_py x = ([], Inr x)"

text \<open>A computation without effects.\<close>

definition pure_py :: "exn + 'a \<Rightarrow> 'a py" where
  "pure_py r = ([], r)"

text \<open>One call to the outside world, with the answer it gets.\<close>

definition call :: "event \<Rightarrow> exn + 'a \<Rightarrow> 'a py" where
  "call ev answer = ([ev], answer)"

definition console_print :: "console \<Rightarrow> message \<Rightarrow> unit py" where
  "console_print con m = call (Print m) (con m)"

text \<open>Statements in sequence: an exception skips the rest.\<close>

definition then_py :: "'a py \<Rightarrow> ('a \<Rightarrow> 'b py) \<Rightarrow> 'b py" where
  "then_py m f =
     (case m of
        (evs, Inl e) \<Rightarrow> (evs, Inl e)
      | (evs, Inr x) \<Rightarrow> (case f x of (evs', r) \<Rightarrow> (evs @ evs', r)))"

text \<open>\<^verbatim>\<open>try: m  except Exception as e: handler\<close>, also the bare \<^verbatim>\<open>except:\<close>.\<close>

definition try_except :: "'a py \<Rightarrow> (exn \<Rightarrow> 'a py) \<Rightarrow> 'a py" where
  "try_except m handler =
     (case m of
        (evs, Inr x) \<Rightarrow> (evs, Inr x)
      | (evs, Inl e) \<Rightarrow> (case handler e of (evs', r) \<Rightarrow> (evs @ evs', r)))"

text \<open>A list comprehension whose element expression may raise.\<close>

fun collect :: "('a \<Rightarrow> exn + 'b) \<Rightarrow> 'a list \<Rightarrow> exn + 'b list" where
  "collect f [] = Inr []"
| "collect f (x # xs) =
     (case f x of
        Inl e \<Rightarrow> Inl e
      | Inr y \<Rightarrow> (case collect f xs of Inl e \<Rightarrow> Inl e | Inr ys \<Rightarrow> Inr (y # ys)))"


subsection \<open>Records of the upstreams\<close>

record buyer_obj =
  buyer_id :: "string option"

record market_obj =
  mkt_id :: "string option"
  question :: "string option"
  volume :: "scalar option"

text \<open>An element of \<^verbatim>\<open>fixedProductMarketMakers\<close> (state subgraph, \<^verbatim>\<open>goldsky.py\<close>).\<close>

record fpmm =
  fpmm_id :: "string option"
  investmentAmount :: "scalar option"
  timestamp :: "int option"
  buyer :: "buyer_obj option"
  market :: "market_obj option"

text \<open>An element of \<^verbatim>\<open>trades\<close> (\<^verbatim>\<open>main.py\<close>).\<close>

record ctf_trade =
  ctf_id :: "string option"
  amount :: "scalar option"
  ctf_timestamp :: "int option"
  account :: "string option"
  ctf_market :: "market_obj option"

text \<open>The dictionary \<^verbatim>\<open>client.execute\<close> returns; which keys it has depends on the query.\<close>

record response =
  fixedProductMarketMakers :: "fpmm list option"
  markets :: "market_obj list option"
  trades :: "ctf_trade list option"
  schema_fields :: "string list option"

definition no_keys :: response where
  "no_keys = \<lparr> fixedProductMarketMakers = None, markets = None, trades = None,
               schema_fields = None \<rparr>"

text \<open>A decoded \<^verbatim>\<open>LogInvestmentChanged\<close> event; the amount is a \<^verbatim>\<open>uint256\<close>.\<close>

record chain_event =
  arg_buyer :: string
  arg_market :: string
  arg_investmentAmount :: nat
  blockNumber :: int

text \<open>The node behind \<^verbatim>\<open>w3\<close>: what each call answers.\<close>

record node =
  contract :: "exn + unit"
  block_number :: "exn + int"
  get_logs :: "int \<Rightarrow> int \<Rightarrow> exn + chain_event list"
  get_block_timestamp :: "int \<Rightarrow> exn + int"

text \<open>The GraphQL endpoint and the node, as they answer during one fetch.\<close>

record upstream =
  execute :: "document \<Rightarrow> variables \<Rightarrow> exn + response"
  w3 :: node

record config =
  TELEGRAM_TOKEN :: string
  TELEGRAM_CHAT_ID :: string

definition WHALE_THRESHOLD_USD :: rat where
  "WHALE_THRESHOLD_USD = 50000"

definition ALERT_THRESHOLD_USD :: rat where
  "ALERT_THRESHOLD_USD = 100000"

text \<open>The dictionaries appended to \<^verbatim>\<open>whale_trades\<close> and \<^verbatim>\<open>whale_events\<close> in \<^verbatim>\<open>goldsky.py\<close>.\<close>

record whale_trade =
  wallet :: string
  size_usd :: rat
  market_label :: string
  time_stamp :: int

text \<open>The dictionaries appended to \<^verbatim>\<open>whales\<close> in \<^verbatim>\<open>main.py\<close>.\<close>

record whale =
  whale_wallet :: string
  amount_usd :: rat
  whale_market :: string
  whale_timestamp :: int

text \<open>A table row; the amount cell is kept as a number.\<close>

datatype row = Row string rat string int | NoRecentWhales


section \<open>goldsky.py\<close>

text \<open>\<^verbatim>\<open>for event in events\<close> of \<^verbatim>\<open>rpc_fallback_trades\<close>, lines 104 to 113.\<close>

fun whale_events :: "node \<Rightarrow> chain_event list \<Rightarrow> whale_trade list py" where
  "whale_events nd [] = return_py []"
| "whale_events nd (ev # evs) =
     (let size = of_nat (arg_investmentAmount ev) / 10 ^ 6 in
      if size \<ge> WHALE_THRESHOLD_USD then
        then_py (call (Web3 (GetBlock (blockNumber ev))) (get_block_timestamp nd (blockNumber ev)))
          (\<lambda>ts.
        then_py (whale_events nd evs) (\<lambda>rest.
        return_py (\<lparr> wallet = arg_buyer ev, size_usd = size,
                      market_label = ''Market '' @ take 10 (arg_market ev) @ ''...'',
                      time_stamp = ts \<rparr> # rest)))
      else whale_events nd evs)"

text \<open>The record built for each whale event at lines 114 and 115.\<close>

definition fallback_record :: "whale_trade \<Rightarrow> fpmm" where
  "fallback_record e =
     \<lparr> fpmm_id = None,
       investmentAmount = Some (Num (of_int (int_py (size_usd e * 10 ^ 6)))),
       timestamp = Some (time_stamp e),
       buyer = Some \<lparr> buyer_id = Some (wallet e) \<rparr>,
       market = Some \<lparr> mkt_id = None, question = Some (market_label e),
                       volume = Some (Num 0) \<rparr> \<rparr>"

text \<open>The \<^verbatim>\<open>try\<close> block of \<^verbatim>\<open>rpc_fallback_trades\<close>, lines 82 to 116.\<close>

definition rpc_fallback_try :: "node \<Rightarrow> response py" where
  "rpc_fallback_try nd =
     then_py (call (Web3 Contract) (contract nd)) (\<lambda>factory.
     then_py (call (Web3 BlockNumber) (block_number nd)) (\<lambda>latest_block.
     let from_block = max 0 (latest_block - 1000) in
     then_py (call (Web3 (GetLogs from_block latest_block))
                (get_logs nd from_block latest_block)) (\<lambda>events.
     then_py (whale_events nd events) (\<lambda>evs.
     return_py (no_keys\<lparr>fixedProductMarketMakers := Some (map fallback_record evs)\<rparr>)))))"

definition rpc_fallback_trades :: "console \<Rightarrow> node \<Rightarrow> response py" where
  "rpc_fallback_trades con nd =
     try_except (rpc_fallback_try nd)
       (\<lambda>e.
        then_py (console_print con (RpcFallbackLimited e)) (\<lambda>u.
        return_py (no_keys\<lparr>fixedProductMarketMakers := Some []\<rparr>)))"

definition fetch_from_subgraph ::
  "console \<Rightarrow> upstream \<Rightarrow> document \<Rightarrow> variables \<Rightarrow> response py" where
  "fetch_from_subgraph con up query vars =
     try_except (call (Execute query vars) (execute up query vars))
       (\<lambda>e.
        then_py (console_print con (SubgraphFetchFailed e)) (\<lambda>u.
        then_py
          (try_except
             (then_py (call (Execute intro_query []) (execute up intro_query [])) (\<lambda>intro.
              then_py (pure_py (subscript ''__schema'' (schema_fields intro))) (\<lambda>fields.
              console_print con (AvailableFields (take 10 fields)))))
             (\<lambda>e'. return_py ())) (\<lambda>u'.
        rpc_fallback_trades con (w3 up))))"

text \<open>
  \<^verbatim>\<open>send_telegram_alert\<close>: the POST is made only when a token is configured; its answer is
  not inspected, so only an exception of \<^verbatim>\<open>requests.post\<close> makes it fail.
\<close>

definition configured :: "config \<Rightarrow> bool" where
  "configured cfg \<longleftrightarrow> TELEGRAM_TOKEN cfg \<noteq> [] \<and> TELEGRAM_TOKEN cfg \<noteq> ''your_bot_token''"

definition send_telegram_alert :: "config \<Rightarrow> exn + unit \<Rightarrow> alert \<Rightarrow> unit py" where
  "send_telegram_alert cfg answer a =
     (if configured cfg then call (Post (TELEGRAM_CHAT_ID cfg) a) answer else return_py ())"

text \<open>The body of the first loop of \<^verbatim>\<open>update_display\<close>, lines 147 to 153.\<close>

definition normalize_trade :: "fpmm \<Rightarrow> exn + whale_trade" where
  "normalize_trade trade =
     and_then (subscript ''investmentAmount'' (investmentAmount trade)) (\<lambda>a.
     and_then (float_py a) (\<lambda>f.
     and_then (subscript ''buyer'' (buyer trade)) (\<lambda>b.
     and_then (subscript ''id'' (buyer_id b)) (\<lambda>w.
     and_then (subscript ''market'' (market trade)) (\<lambda>m.
     and_then (subscript ''question'' (question m)) (\<lambda>q.
     and_then (subscript ''timestamp'' (timestamp trade)) (\<lambda>ts.
     Inr \<lparr> wallet = w, size_usd = f / 10 ^ 6, market_label = take 50 q @ ''...'',
           time_stamp = ts \<rparr>)))))))"

definition alert_of :: "whale_trade \<Rightarrow> alert" where
  "alert_of t = (size_usd t, market_label t)"

definition table_row :: "whale_trade \<Rightarrow> row" where
  "table_row t = Row (take 10 (wallet t) @ ''...'') (size_usd t) (market_label t) (time_stamp t)"

text \<open>
  The display loop, lines 162 to 178. \<open>post k\<close> is the answer the \<open>k\<close>-th POST of this
  refresh gets; \<open>displayed\<close> is the counter of the source. The rows are those added to
  the table.
\<close>

fun display_loop ::
  "console \<Rightarrow> config \<Rightarrow> (nat \<Rightarrow> exn + unit) \<Rightarrow> nat \<Rightarrow> whale_trade list \<Rightarrow> nat
     \<Rightarrow> row list py" where
  "display_loop con cfg post k [] displayed = return_py []"
| "display_loop con cfg post k (t # ts) displayed =
     (if displayed \<ge> 10 then return_py []
      else if size_usd t \<ge> ALERT_THRESHOLD_USD then
        then_py (send_telegram_alert cfg (post k) (alert_of t)) (\<lambda>u.
        then_py (console_print con (WhaleAlert (alert_of t))) (\<lambda>u'.
        then_py (display_loop con cfg post (if configured cfg then Suc k else k) ts
                   (displayed + 1))
          (\<lambda>rows.
        return_py (table_row t # rows))))
      else
        then_py (display_loop con cfg post k ts (displayed + 1)) (\<lambda>rows.
        return_py (table_row t # rows)))"

definition update_display ::
  "console \<Rightarrow> config \<Rightarrow> (nat \<Rightarrow> exn + unit) \<Rightarrow> upstream \<Rightarrow> upstream \<Rightarrow> int
     \<Rightarrow> row list py" where
  "update_display con cfg post up1 up2 since =
     then_py (fetch_from_subgraph con up1 MARKETS_QUERY []) (\<lambda>markets_result.
     let top_markets = get_default (markets markets_result) [] in
     then_py (fetch_from_subgraph con up2 TRADE_QUERY
                [(''timestamp'', IntVar since), (''amount'', StrVar ''50000000000.0'')])
       (\<lambda>trades_result.
     let trades_list = get_default (fixedProductMarketMakers trades_result) [] in
     then_py (pure_py (collect normalize_trade trades_list)) (\<lambda>whale_trades.
     then_py (display_loop con cfg post 0 (sorted_reverse size_usd whale_trades) 0) (\<lambda>rows.
     let table = rows @ (if whale_trades = [] then [NoRecentWhales] else []) in
     then_py
       (if top_markets \<noteq> [] then
          then_py (pure_py (collect
                     (\<lambda>m. and_then (subscript ''question'' (question m)) (\<lambda>q. Inr (take 30 q)))
                     top_markets)) (\<lambda>names.
          console_print con (TopMarkets names))
        else return_py ()) (\<lambda>u.
     return_py table)))))"

text \<open>
  The default of \<^verbatim>\<open>since\<close>: \<^verbatim>\<open>int((time.time() - 86400) * 1000)\<close>, with \<open>now\<close> the value
  of \<^verbatim>\<open>time.time()\<close>, in seconds since the epoch.
\<close>

definition since_default :: "rat \<Rightarrow> int" where
  "since_default now = int_py ((now - 86400) * 1000)"

text \<open>\<^verbatim>\<open>track_whales\<close> renders the table of one \<^verbatim>\<open>update_display()\<close> and then sleeps.\<close>

definition track_whales ::
  "console \<Rightarrow> config \<Rightarrow> (nat \<Rightarrow> exn + unit) \<Rightarrow> upstream \<Rightarrow> upstream \<Rightarrow> int
     \<Rightarrow> row list py" where
  "track_whales con cfg post up1 up2 since = update_display con cfg post up1 up2 since"


section \<open>main.py\<close>

text \<open>The body of \<^verbatim>\<open>for trade in result['trades']\<close>, lines 51 to 58.\<close>

definition whale_of :: "ctf_trade \<Rightarrow> exn + whale option" where
  "whale_of trade =
     and_then (subscript ''amount'' (amount trade)) (\<lambda>a.
     and_then (float_py a) (\<lambda>amt.
     if amt \<ge> WHALE_THRESHOLD_USD then
       and_then (subscript ''account'' (account trade)) (\<lambda>w.
       and_then (subscript ''market'' (ctf_market trade)) (\<lambda>m.
       and_then (subscript ''question'' (question m)) (\<lambda>q.
       and_then (subscript ''timestamp'' (ctf_timestamp trade)) (\<lambda>ts.
       Inr (Some \<lparr> whale_wallet = w, amount_usd = amt, whale_market = take 50 q @ ''...'',
                   whale_timestamp = ts \<rparr>)))))
     else Inr None))"

fun whales_loop :: "ctf_trade list \<Rightarrow> exn + whale list" where
  "whales_loop [] = Inr []"
| "whales_loop (trade # rest) =
     and_then (whale_of trade) (\<lambda>w.
     and_then (whales_loop rest) (\<lambda>ws.
     Inr (case w of None \<Rightarrow> ws | Some x \<Rightarrow> x # ws)))"

definition fetch_whale_trades ::
  "(document \<Rightarrow> variables \<Rightarrow> exn + response) \<Rightarrow> string \<Rightarrow> int \<Rightarrow> whale list py" where
  "fetch_whale_trades exec market_id since_ts =
     (let params = [(''timestamp'', IntVar since_ts)] in
      then_py (call (Execute QUERY params) (exec QUERY params)) (\<lambda>result.
      then_py (pure_py (subscript ''trades'' (trades result))) (\<lambda>ts.
      then_py (pure_py (whales_loop ts)) (\<lambda>whales.
      return_py (take 10 (sorted_reverse amount_usd whales))))))"

text \<open>\<^verbatim>\<open>for t in trades\<close> of \<^verbatim>\<open>update_display\<close> in \<^verbatim>\<open>main.py\<close>, lines 72 to 78.\<close>

fun rows_loop :: "console \<Rightarrow> whale list \<Rightarrow> row list py" where
  "rows_loop con [] = return_py []"
| "rows_loop con (t # ts) =
     then_py (if amount_usd t > 100000
              then console_print con (NewWhale (amount_usd t, whale_market t))
              else return_py ()) (\<lambda>u.
     then_py (rows_loop con ts) (\<lambda>rows.
     return_py (Row (take 10 (whale_wallet t) @ ''...'') (amount_usd t) (whale_market t)
                  (whale_timestamp t) # rows)))"

definition update_display_main ::
  "console \<Rightarrow> (document \<Rightarrow> variables \<Rightarrow> exn + response) \<Rightarrow> string \<Rightarrow> int \<Rightarrow> row list py"
  where
  "update_display_main con exec market_filter since =
     then_py (fetch_whale_trades exec market_filter since) (\<lambda>trades. rows_loop con trades)"

definition since_default_main :: "rat \<Rightarrow> int" where
  "since_default_main now = int_py ((now - 3600) * 1000)"

definition track_whales_main ::
  "console \<Rightarrow> (document \<Rightarrow> variables \<Rightarrow> exn + response) \<Rightarrow> string \<Rightarrow> int \<Rightarrow> row list py"
  where
  "track_whales_main con exec market_filter since =
     update_display_main con exec market_filter since"


section \<open>Auxiliary notions and sample inputs\<close>

text \<open>
  \<open>extends r r'\<close>: the run \<open>r'\<close> continues \<open>r\<close>. Nothing leaves the \<^verbatim>\<open>seen\<close> set, and what
  was printed in between was printed under pairwise different hashes, each of them new
  to the \<^verbatim>\<open>seen\<close> set.
\<close>

definition extends :: "run \<Rightarrow> run \<Rightarrow> bool" where
  "extends r r' \<longleftrightarrow>
     seen r \<subseteq> seen r' \<and>
     (\<exists>ys. printed r' = printed r @ ys \<and> distinct (map fst ys) \<and>
           fst ` set ys \<subseteq> seen r' - seen r)"

definition start :: run where
  "start = \<lparr> seen = {}, printed = [], raised = None \<rparr>"

text \<open>A REST trade of 0.50 * 20000 = 10000 USD, and one of 0.50 * 100 = 50 USD.\<close>

definition rest_big :: rest_trade where
  "rest_big = \<lparr> transactionHash = Some ''0xabc'', price = Some (Num (1 / 2)),
                trade_size = Some (Num 20000), side = Some ''buy'', title = Some ''Q'',
                outcome = None, maker = None, taker = None, rest_timestamp = Some 100 \<rparr>"

definition rest_small :: rest_trade where
  "rest_small = rest_big\<lparr> transactionHash := Some ''0xdef'', trade_size := Some (Num 100) \<rparr>"



text \<open>
  Records of the state subgraph: one of 60000000000 raw units (60000 USD), one of one
  dollar, one with a negative amount, and one without the \<^verbatim>\<open>buyer\<close> key.
\<close>

definition fpmm_whale :: fpmm where
  "fpmm_whale = \<lparr> fpmm_id = Some ''a'', investmentAmount = Some (Num 60000000000),
                  timestamp = Some 100, buyer = Some \<lparr> buyer_id = Some ''0xb0b'' \<rparr>,
                  market = Some \<lparr> mkt_id = Some ''m'', question = Some ''Rain?'',
                                  volume = Some (Num 0) \<rparr> \<rparr>"

definition fpmm_dollar :: fpmm where
  "fpmm_dollar = fpmm_whale\<lparr> investmentAmount := Some (Num 1000000) \<rparr>"

definition fpmm_negative :: fpmm where
  "fpmm_negative = fpmm_whale\<lparr> investmentAmount := Some (Num (- 1000000)) \<rparr>"

definition fpmm_no_buyer :: fpmm where
  "fpmm_no_buyer = fpmm_whale\<lparr> buyer := None \<rparr>"

text \<open>A node that cannot be reached, and an endpoint that answers every query with a batch.\<close>

definition dead_node :: node where
  "dead_node = \<lparr> contract = Inl (RequestError ''node''),
                 block_number = Inl (RequestError ''node''),
                 get_logs = (\<lambda>a b. Inl (RequestError ''node'')),
                 get_block_timestamp = (\<lambda>b. Inl (RequestError ''node'')) \<rparr>"

definition serving :: "fpmm list \<Rightarrow> upstream" where
  "serving batch =
     \<lparr> execute = (\<lambda>d v. Inr (no_keys\<lparr>fixedProductMarketMakers := Some batch\<rparr>)),
       w3 = dead_node \<rparr>"

text \<open>The configuration as the source has it, and one with a bot token filled in.\<close>

definition as_shipped :: config where
  "as_shipped = \<lparr> TELEGRAM_TOKEN = ''your_bot_token'', TELEGRAM_CHAT_ID = ''your_chat_id'' \<rparr>"

definition with_token :: config where
  "with_token = \<lparr> TELEGRAM_TOKEN = ''123:abc'', TELEGRAM_CHAT_ID = ''42'' \<rparr>"

text \<open>The POSTs attempted in one refresh, as a trace shows them.\<close>

fun posted :: "event list \<Rightarrow> alert list" where
  "posted [] = []"
| "posted (Post c a # evs) = a # posted evs"
| "posted (ev # evs) = posted evs"


text \<open>A record of the state subgraph that lacks a key \<open>normalize_trade\<close> subscripts.\<close>

definition lacks_key :: "fpmm \<Rightarrow> bool" where
  "lacks_key t \<longleftrightarrow>
     investmentAmount t = None \<or> timestamp t = None
     \<or> (case buyer t of None \<Rightarrow> True | Some b \<Rightarrow> buyer_id b = None)
     \<or> (case market t of None \<Rightarrow> True | Some m \<Rightarrow> question m = None)"

text \<open>A trade of \<^verbatim>\<open>main.py\<close>'s subgraph, of 75000 USD, and an endpoint that serves it.\<close>

definition ctf_whale :: ctf_trade where
  "ctf_whale = \<lparr> ctf_id = Some ''t1'', amount = Some (Num 75000), ctf_timestamp = Some 100,
                 account = Some ''0xa11ce'',
                 ctf_market = Some \<lparr> mkt_id = Some ''m'', question = Some ''Rain?'',
                                      volume = None \<rparr> \<rparr>"

definition serving_trades :: "ctf_trade list \<Rightarrow> document \<Rightarrow> variables \<Rightarrow> exn + response" where
  "serving_trades batch d v = Inr (no_keys\<lparr>trades := Some batch\<rparr>)"


text \<open>
  A node that answers, with one event of 60000 USD and one of 1 USD in its log, and an
  endpoint whose every request fails.
\<close>

definition live_node :: node where
  "live_node =
     \<lparr> contract = Inr (), block_number = Inr 5000,
       get_logs = (\<lambda>a b. Inr [\<lparr> arg_buyer = ''0xb0b'', arg_market = ''0x0123456789abcdef'',
                                 arg_investmentAmount = 60000000000, blockNumber = 4990 \<rparr>,
                               \<lparr> arg_buyer = ''0xb0b'', arg_market = ''0x0123456789abcdef'',
                                 arg_investmentAmount = 1000000, blockNumber = 4991 \<rparr>]),
       get_block_timestamp = (\<lambda>b. Inr 100) \<rparr>"

definition unreachable :: "string \<Rightarrow> node \<Rightarrow> upstream" where
  "unreachable msg nd = \<lparr> execute = (\<lambda>d v. Inl (RequestError msg)), w3 = nd \<rparr>"

text \<open>
  A console that prints every line, and one that raises on a line whose pasted text
  holds the closing tag \<^verbatim>\<open>[/x]\<close>, which matches no open tag of the line.
\<close>

definition prints_all :: console where
  "prints_all m = Inr ()"

fun stray_tag :: "string \<Rightarrow> bool" where
  "stray_tag [] = False"
| "stray_tag (c # s) = (take 4 (c # s) = ''[/x]'' \<or> stray_tag s)"

fun exn_text :: "exn \<Rightarrow> string" where
  "exn_text (KeyError k) = k"
| "exn_text (RequestError msg) = msg"
| "exn_text ValueError = []"
| "exn_text MarkupError = []"

fun pasted :: "message \<Rightarrow> string list" where
  "pasted (SubgraphFetchFailed e) = [exn_text e]"
| "pasted (AvailableFields names) = names"
| "pasted (RpcFallbackLimited e) = [exn_text e]"
| "pasted (WhaleAlert a) = [snd a]"
| "pasted (TopMarkets names) = names"
| "pasted (NewWhale a) = [snd a]"

definition rich_console :: console where
  "rich_console m = (if list_ex stray_tag (pasted m) then Inl MarkupError else Inr ())"

text \<open>Three normalized trades, of 300000, 200000 and 60000 USD.\<close>

definition whale_a :: whale_trade where
  "whale_a = \<lparr> wallet = ''0xa'', size_usd = 300000, market_label = ''A...'', time_stamp = 1 \<rparr>"

definition whale_b :: whale_trade where
  "whale_b = \<lparr> wallet = ''0xb'', size_usd = 200000, market_label = ''B...'', time_stamp = 2 \<rparr>"

definition whale_c :: whale_trade where
  "whale_c = \<lparr> wallet = ''0xc'', size_usd = 60000, market_label = ''C...'', time_stamp = 3 \<rparr>"

text \<open>The trades of a list that the display loop alerts on when it starts at \<open>displayed\<close>.\<close>

definition alerted :: "nat \<Rightarrow> whale_trade list \<Rightarrow> whale_trade list" where
  "alerted displayed ts = filter (\<lambda>t. ALERT_THRESHOLD_USD \<le> size_usd t) (take (10 - displayed) ts)"

text \<open>The alert lines a trace shows handed to the console.\<close>

fun alert_lines :: "event list \<Rightarrow> alert list" where
  "alert_lines [] = []"
| "alert_lines (Print (WhaleAlert a) # evs) = a # alert_lines evs"
| "alert_lines (ev # evs) = alert_lines evs"


section \<open>polymarket.py: deduplication\<close>

lemma distinct_keys_filter_le1:
  "distinct (map f xs) \<Longrightarrow> length (filter (\<lambda>e. f e = h) xs) \<le> 1"
proof (induction xs)
  case Nil
  then show ?case by simp
next
  case (Cons x xs)
  from Cons.prems have fresh: "f x \<notin> f ` set xs" and rest: "distinct (map f xs)"
    by simp_all
  show ?case
  proof (cases "f x = h")
    case True
    have "filter (\<lambda>e. f e = h) xs = []"
      unfolding filter_empty_conv using fresh True by blast
    with True show ?thesis by simp
  next
    case False
    with Cons.IH [OF rest] show ?thesis by simp
  qed
qed

lemma extends_refl: "extends r r"
  by (simp add: extends_def)

lemma extends_trans:
  assumes "extends a b" and "extends b c"
  shows "extends a c"
proof -
  from assms(1) obtain ys where ab: "seen a \<subseteq> seen b" "printed b = printed a @ ys"
    "distinct (map fst ys)" "fst ` set ys \<subseteq> seen b - seen a"
    unfolding extends_def by blast
  from assms(2) obtain zs where bc: "seen b \<subseteq> seen c" "printed c = printed b @ zs"
    "distinct (map fst zs)" "fst ` set zs \<subseteq> seen c - seen b"
    unfolding extends_def by blast
  have p: "printed c = printed a @ (ys @ zs)"
    using ab(2) bc(2) by simp
  have "fst ` set ys \<inter> fst ` set zs = {}"
    using ab(4) bc(4) by blast
  then have d: "distinct (map fst (ys @ zs))"
    using ab(3) bc(3) by simp
  have s: "fst ` set (ys @ zs) \<subseteq> seen c - seen a"
    using ab(1,4) bc(1,4) by (simp add: image_Un) blast
  have "seen a \<subseteq> seen c"
    using ab(1) bc(1) by blast
  with p d s show ?thesis
    unfolding extends_def by blast
qed

lemma extends_raised: "extends r (r\<lparr>raised := x\<rparr>)"
  by (simp add: extends_def)

lemma extends_loop_body: "extends r (loop_body r t)"
  by (auto simp: loop_body_def extends_def Let_def split: sum.splits)

lemma extends_for_trades: "extends r (for_trades r ts)"
proof (induction ts arbitrary: r)
  case Nil
  show ?case by (simp add: extends_refl)
next
  case (Cons t ts)
  show ?case
  proof (cases "raised (loop_body r t) = None")
    case True
    then have "for_trades r (t # ts) = for_trades (loop_body r t) ts"
      by (simp add: Let_def)
    with extends_trans [OF extends_loop_body Cons.IH] show ?thesis by simp
  next
    case False
    then have "for_trades r (t # ts) = loop_body r t"
      by (auto simp: Let_def)
    with extends_loop_body show ?thesis by simp
  qed
qed

lemma extends_while_true: "extends r (while_true r fs)"
proof (induction r fs rule: while_true.induct)
  case (1 r)
  show ?case by (simp add: extends_refl)
next
  case (2 r e fs)
  show ?case by (simp add: extends_raised)
next
  case (3 r trades fs)
  show ?case
  proof (cases "raised (for_trades r trades) = None")
    case True
    then have "while_true r (Inr trades # fs) = while_true (for_trades r trades) fs"
      by (simp add: Let_def)
    with extends_trans [OF extends_for_trades "3.IH" [OF refl True]] show ?thesis by simp
  next
    case False
    then have "while_true r (Inr trades # fs) = for_trades r trades"
      by (auto simp: Let_def)
    with extends_for_trades show ?thesis by simp
  qed
qed

text \<open>
  Claim C2. However the fetched batches look, no transaction hash is printed twice by
  \<^verbatim>\<open>main\<close>: a trade fed twice, within one batch or in two cycles, is printed at most
  once. Lookup and insertion happen per record in \<open>loop_body\<close>.
\<close>

theorem dedup: "length (filter (\<lambda>e. fst e = h) (printed (main fetches))) \<le> 1"
proof -
  have "extends \<lparr>seen = {}, printed = [], raised = None\<rparr> (main fetches)"
    unfolding main_def by (rule extends_while_true)
  then have "distinct (map fst (printed (main fetches)))"
    by (auto simp: extends_def)
  then show ?thesis by (rule distinct_keys_filter_le1)
qed


lemma loop_body_inserts:
  "raised r = None \<Longrightarrow> raised (loop_body r t) = None \<Longrightarrow>
   \<exists>h. transactionHash t = Some h \<and> h \<in> seen (loop_body r t)"
  by (cases "transactionHash t") (auto simp: loop_body_def Let_def split: sum.splits if_splits)

lemma for_trades_step:
  "raised (loop_body r t) = None \<Longrightarrow> for_trades r (t # ts) = for_trades (loop_body r t) ts"
  by (simp add: Let_def)

lemma for_trades_stop:
  "raised (loop_body r t) \<noteq> None \<Longrightarrow> for_trades r (t # ts) = loop_body r t"
  by (auto simp: Let_def)

lemma for_trades_raised_head:
  "raised (for_trades r (t # ts)) = None \<Longrightarrow> raised (loop_body r t) = None"
  by (cases "raised (loop_body r t) = None") (auto simp: Let_def)

lemma for_trades_inserts:
  "raised r = None \<Longrightarrow> raised (for_trades r ts) = None \<Longrightarrow> t \<in> set ts \<Longrightarrow>
   \<exists>h. transactionHash t = Some h \<and> h \<in> seen (for_trades r ts)"
proof (induction ts arbitrary: r)
  case Nil
  then show ?case by simp
next
  case (Cons a ts)
  have ok: "raised (loop_body r a) = None"
    using Cons.prems(2) by (rule for_trades_raised_head)
  have ft: "for_trades r (a # ts) = for_trades (loop_body r a) ts"
    using ok by (rule for_trades_step)
  show ?case
  proof (cases "t = a")
    case True
    from loop_body_inserts [OF Cons.prems(1) ok] obtain h where
      h: "transactionHash a = Some h" "h \<in> seen (loop_body r a)" by blast
    have "seen (loop_body r a) \<subseteq> seen (for_trades (loop_body r a) ts)"
      using extends_for_trades [of "loop_body r a" ts] by (simp add: extends_def)
    with h have "h \<in> seen (for_trades r (a # ts))"
      unfolding ft by blast
    with h(1) True show ?thesis by blast
  next
    case False
    with Cons.prems(3) have mem: "t \<in> set ts" by simp
    have "raised (for_trades (loop_body r a) ts) = None"
      using Cons.prems(2) unfolding ft .
    from Cons.IH [OF ok this mem] show ?thesis unfolding ft .
  qed
qed

lemma for_trades_append:
  "raised r = None \<Longrightarrow>
   for_trades r (xs @ ys) =
     (if raised (for_trades r xs) = None then for_trades (for_trades r xs) ys
      else for_trades r xs)"
proof (induction xs arbitrary: r)
  case Nil
  then show ?case by simp
next
  case (Cons x xs)
  show ?case
  proof (cases "raised (loop_body r x) = None")
    case True
    then show ?thesis using Cons.IH [OF True] by (simp add: Let_def)
  next
    case False
    then show ?thesis by (auto simp: Let_def)
  qed
qed







theorem dedup_witness:
  "length (filter (\<lambda>e. fst e = ''0xabc'')
       (printed (main [Inr [rest_big, rest_big], Inr [rest_big]]))) \<le> 1
   \<and> map fst (printed (main [Inr [rest_big, rest_big], Inr [rest_big]])) = [''0xabc'']"
  using dedup [of "''0xabc''" "[Inr [rest_big, rest_big], Inr [rest_big]]"]
  by (simp add: main_def loop_body_def usd_value_def print_trade_def rest_big_def
        THRESHOLD_USD_def Let_def)









section \<open>Normalization\<close>

lemma normalize_trade_Inr:
  "normalize_trade trade = Inr w \<Longrightarrow>
   \<exists>a. investmentAmount trade = Some (Num a) \<and> size_usd w = a / 10 ^ 6"
  unfolding normalize_trade_def
  by (cases "investmentAmount trade"; cases "the (investmentAmount trade)";
      cases "buyer trade"; cases "market trade"; cases "timestamp trade";
      cases "buyer_id (the (buyer trade))"; cases "question (the (market trade))")
     auto

lemma usd_value_Inr:
  "usd_value t = Inr v \<Longrightarrow>
   \<exists>p s. price t = Some (Num p) \<and> trade_size t = Some (Num s) \<and> v = p * s"
  unfolding usd_value_def
  by (cases "price t"; cases "the (price t)"; cases "trade_size t"; cases "the (trade_size t)")
     auto



lemma whale_of_amount:
  "whale_of trade = Inr (Some w) \<Longrightarrow> WHALE_THRESHOLD_USD \<le> amount_usd w"
  unfolding whale_of_def
  by (cases "amount trade"; cases "the (amount trade)"; cases "account trade";
      cases "ctf_market trade"; cases "ctf_timestamp trade";
      cases "question (the (ctf_market trade))")
     (auto split: if_splits)

lemma whales_loop_amount:
  "whales_loop ts = Inr ws \<Longrightarrow> w \<in> set ws \<Longrightarrow> WHALE_THRESHOLD_USD \<le> amount_usd w"
proof (induction ts arbitrary: ws)
  case Nil
  then show ?case by simp
next
  case (Cons t ts)
  from Cons.prems(1) obtain o' ws' where
    o: "whale_of t = Inr o'" and ws': "whales_loop ts = Inr ws'"
    and ws: "ws = (case o' of None \<Rightarrow> ws' | Some x \<Rightarrow> x # ws')"
    by (cases "whale_of t"; cases "whales_loop ts") auto
  show ?case
  proof (cases o')
    case None
    with ws Cons.prems(2) have "w \<in> set ws'" by simp
    with Cons.IH [OF ws'] show ?thesis .
  next
    case (Some x)
    with ws Cons.prems(2) have "w = x \<or> w \<in> set ws'" by auto
    then show ?thesis
    proof
      assume "w = x"
      with o Some show ?thesis by (simp add: whale_of_amount)
    next
      assume "w \<in> set ws'"
      with Cons.IH [OF ws'] show ?thesis .
    qed
  qed
qed

lemma loop_body_printed_hash:
  "(tx, p) \<in> set (printed (loop_body r t)) \<Longrightarrow> (tx, p) \<notin> set (printed r) \<Longrightarrow>
   transactionHash t = Some tx"
  by (cases "transactionHash t")
     (auto simp: loop_body_def Let_def split: sum.splits if_splits)

text \<open>
  Claim C6, as amended. Normalization checks neither the sign of the amount nor the
  hash. The notional of a state-subgraph record is non-negative exactly when the raw
  amount is, that of a REST trade when price and size are; the trades \<^verbatim>\<open>main.py\<close> keeps
  are at least 50000 USD; and a REST trade is printed under the \<^verbatim>\<open>transactionHash\<close> the
  upstream gave, empty or not. The records of \<^verbatim>\<open>goldsky.py\<close> and \<^verbatim>\<open>main.py\<close> carry no id.
\<close>

theorem notional_sign_and_id:
  "(normalize_trade trade = Inr w \<longrightarrow> investmentAmount trade = Some (Num a) \<longrightarrow>
      (0 \<le> size_usd w \<longleftrightarrow> 0 \<le> a))
   \<and> (whales_loop ts = Inr ws \<longrightarrow> (\<forall>x\<in>set ws. 0 \<le> amount_usd x))
   \<and> (usd_value t = Inr v \<longrightarrow> price t = Some (Num p) \<longrightarrow> trade_size t = Some (Num s) \<longrightarrow>
      0 \<le> p \<longrightarrow> 0 \<le> s \<longrightarrow> 0 \<le> v)
   \<and> ((tx, pn) \<in> set (printed (loop_body r t)) \<longrightarrow> (tx, pn) \<notin> set (printed r) \<longrightarrow>
      transactionHash t = Some tx)"
proof (intro conjI impI ballI)
  assume "normalize_trade trade = Inr w" "investmentAmount trade = Some (Num a)"
  then show "0 \<le> size_usd w \<longleftrightarrow> 0 \<le> a"
    by (auto dest!: normalize_trade_Inr simp: zero_le_divide_iff)
next
  fix x assume "whales_loop ts = Inr ws" "x \<in> set ws"
  from whales_loop_amount [OF this] show "0 \<le> amount_usd x"
    by (simp add: WHALE_THRESHOLD_USD_def)
next
  assume "usd_value t = Inr v" "price t = Some (Num p)" "trade_size t = Some (Num s)"
    "0 \<le> p" "0 \<le> s"
  then show "0 \<le> v" by (auto dest!: usd_value_Inr)
next
  assume "(tx, pn) \<in> set (printed (loop_body r t))" "(tx, pn) \<notin> set (printed r)"
  then show "transactionHash t = Some tx" by (rule loop_body_printed_hash)
qed


theorem notional_sign_and_id_counterexample:
  "(\<exists>w. normalize_trade fpmm_negative = Inr w \<and> size_usd w = - 1)
   \<and> map fst (printed (main [Inr [rest_big\<lparr>transactionHash := Some []\<rparr>]])) = [[]]"
  by (simp add: normalize_trade_def fpmm_negative_def fpmm_whale_def main_def loop_body_def
        usd_value_def print_trade_def rest_big_def THRESHOLD_USD_def Let_def)

theorem notional_sign_and_id_witness:
  "(\<exists>w. normalize_trade fpmm_whale = Inr w \<and> 0 \<le> size_usd w)
   \<and> (\<exists>ws. whales_loop [ctf_whale] = Inr ws \<and> 0 \<le> amount_usd (hd ws))
   \<and> usd_value rest_big = Inr 10000
   \<and> transactionHash rest_big = Some ''0xabc''"
  using notional_sign_and_id [of fpmm_whale
      "\<lparr> wallet = ''0xb0b'', size_usd = 60000, market_label = ''Rain?...'', time_stamp = 100 \<rparr>"
      60000000000 "[ctf_whale]"
      "[\<lparr> whale_wallet = ''0xa11ce'', amount_usd = 75000, whale_market = ''Rain?...'',
          whale_timestamp = 100 \<rparr>]"
      rest_big 10000 "1 / 2" 20000 "''0xabc''" "snd (hd (printed (loop_body start rest_big)))"
      start]
  by (simp add: normalize_trade_def fpmm_whale_def whale_of_def ctf_whale_def
        WHALE_THRESHOLD_USD_def usd_value_def rest_big_def)

lemma collect_fails:
  "f bad = Inl e \<Longrightarrow> \<exists>e'. collect f (pre @ bad # post) = Inl e'"
  by (induction pre) (auto split: sum.splits)

lemma lacks_key_raises: "lacks_key t \<Longrightarrow> \<exists>e. normalize_trade t = Inl e"
  unfolding lacks_key_def normalize_trade_def
  by (cases "investmentAmount t"; cases "the (investmentAmount t)";
      cases "buyer t"; cases "market t"; cases "timestamp t";
      cases "buyer_id (the (buyer t))"; cases "question (the (market t))")
     auto

lemma loop_body_missing_key:
  assumes "transactionHash bad = None
     \<or> (\<exists>h. transactionHash bad = Some h \<and> h \<notin> seen r
            \<and> (price bad = None \<or> trade_size bad = None))"
  shows "raised (loop_body r bad) \<noteq> None"
  using assms unfolding loop_body_def usd_value_def
  by (cases "price bad"; cases "the (price bad)"; cases "trade_size bad")
     (auto simp: Let_def)

lemma for_trades_aborts:
  assumes r: "raised r = None" and bad: "raised (loop_body (for_trades r pre) bad) \<noteq> None"
  shows "raised (for_trades r (pre @ bad # post)) \<noteq> None
         \<and> for_trades r (pre @ bad # post) = for_trades r (pre @ [bad])"
proof (cases "raised (for_trades r pre) = None")
  case True
  have "for_trades r (pre @ bad # post) = for_trades (for_trades r pre) (bad # post)"
    using for_trades_append [OF r, of pre "bad # post"] True by simp
  also have "\<dots> = loop_body (for_trades r pre) bad"
    using bad by (rule for_trades_stop)
  finally have a: "for_trades r (pre @ bad # post) = loop_body (for_trades r pre) bad" .
  have "for_trades r (pre @ [bad]) = for_trades (for_trades r pre) [bad]"
    using for_trades_append [OF r, of pre "[bad]"] True by simp
  also have "\<dots> = loop_body (for_trades r pre) bad"
    using bad by (rule for_trades_stop)
  finally have b: "for_trades r (pre @ [bad]) = loop_body (for_trades r pre) bad" .
  from a b bad show ?thesis by simp
next
  case False
  have a: "for_trades r (pre @ bad # post) = for_trades r pre"
    unfolding for_trades_append [OF r, of pre "bad # post"] using False by (simp only: if_False)
  have b: "for_trades r (pre @ [bad]) = for_trades r pre"
    unfolding for_trades_append [OF r, of pre "[bad]"] using False by (simp only: if_False)
  from False show ?thesis unfolding a b by simp
qed

lemma loop_body_skips_seen:
  "transactionHash d = Some g \<Longrightarrow> g \<in> seen s \<Longrightarrow> loop_body s d = s"
  by (simp add: loop_body_def)

text \<open>
  Claim C7, as amended. No script handles a failing record on its own. In
  \<^verbatim>\<open>goldsky.py\<close> a record that lacks a key the normalization subscripts makes the
  normalization of the whole batch raise, so no normalized trade is produced. In
  \<^verbatim>\<open>polymarket.py\<close> a record without \<^verbatim>\<open>transactionHash\<close>, or with a hash not seen before
  and without \<^verbatim>\<open>price\<close> or \<^verbatim>\<open>size\<close>, raises and ends the loop: the records after it
  are never looked at. A record whose hash was seen before is skipped before any other
  key is read, whatever it lacks.
\<close>

theorem missing_key_aborts:
  "(lacks_key bad \<longrightarrow> (\<exists>e. collect normalize_trade (pre @ bad # post) = Inl e))
   \<and> (raised r = None \<longrightarrow>
       (transactionHash t = None
        \<or> (\<exists>h. transactionHash t = Some h \<and> h \<notin> seen (for_trades r before)
               \<and> (price t = None \<or> trade_size t = None))) \<longrightarrow>
       raised (for_trades r (before @ t # after)) \<noteq> None
       \<and> for_trades r (before @ t # after) = for_trades r (before @ [t]))
   \<and> (transactionHash d = Some g \<longrightarrow> g \<in> seen s \<longrightarrow> loop_body s d = s)"
proof (intro conjI impI)
  assume "lacks_key bad"
  then obtain e where "normalize_trade bad = Inl e"
    using lacks_key_raises by blast
  then show "\<exists>e. collect normalize_trade (pre @ bad # post) = Inl e"
    by (rule collect_fails)
next
  assume r: "raised r = None" and
    "transactionHash t = None
      \<or> (\<exists>h. transactionHash t = Some h \<and> h \<notin> seen (for_trades r before)
             \<and> (price t = None \<or> trade_size t = None))"
  then have bad: "raised (loop_body (for_trades r before) t) \<noteq> None"
    by (intro loop_body_missing_key)
  from for_trades_aborts [OF r bad]
  show "raised (for_trades r (before @ t # after)) \<noteq> None"
    and "for_trades r (before @ t # after) = for_trades r (before @ [t])"
    by simp_all
next
  assume "transactionHash d = Some g" and "g \<in> seen s"
  then show "loop_body s d = s" by (rule loop_body_skips_seen)
qed

theorem missing_key_aborts_counterexample:
  "collect normalize_trade [fpmm_no_buyer, fpmm_whale] = Inl (KeyError ''buyer'')
   \<and> snd (update_display prints_all as_shipped (\<lambda>k. Inr ()) (serving [])
             (serving [fpmm_no_buyer, fpmm_whale]) 0) = Inl (KeyError ''buyer'')
   \<and> (\<exists>w. normalize_trade fpmm_whale = Inr w)
   \<and> printed (main [Inr [rest_big\<lparr>transactionHash := None\<rparr>, rest_big]]) = []
   \<and> raised (main [Inr [rest_big\<lparr>transactionHash := None\<rparr>, rest_big]])
       = Some (KeyError ''transactionHash'')"
  by (simp add: normalize_trade_def fpmm_no_buyer_def fpmm_whale_def update_display_def
        fetch_from_subgraph_def serving_def try_except_def call_def then_py_def return_py_def
        pure_py_def no_keys_def main_def loop_body_def rest_big_def)

theorem missing_key_aborts_witness:
  "(\<exists>e. collect normalize_trade ([fpmm_whale] @ fpmm_no_buyer # [fpmm_dollar]) = Inl e)
   \<and> raised (for_trades start ([rest_small] @ rest_big\<lparr>price := None\<rparr> # [rest_big])) \<noteq> None
   \<and> for_trades start ([rest_small] @ rest_big\<lparr>price := None\<rparr> # [rest_big])
       = for_trades start ([rest_small] @ [rest_big\<lparr>price := None\<rparr>])
   \<and> loop_body (start\<lparr>seen := {''0xabc''}\<rparr>) (rest_big\<lparr>price := None\<rparr>)
       = start\<lparr>seen := {''0xabc''}\<rparr>"
  using missing_key_aborts [of fpmm_no_buyer "[fpmm_whale]" "[fpmm_dollar]" start
      "rest_big\<lparr>price := None\<rparr>" "[rest_small]" "[rest_big]"
      "rest_big\<lparr>price := None\<rparr>" "''0xabc''" "start\<lparr>seen := {''0xabc''}\<rparr>"]
  by (simp add: lacks_key_def fpmm_no_buyer_def fpmm_whale_def start_def loop_body_def
        usd_value_def rest_small_def rest_big_def THRESHOLD_USD_def Let_def)


section \<open>Effects, the market filter and the lookback\<close>

lemma then_py_Inl: "snd m = Inl e \<Longrightarrow> then_py m f = (fst m, Inl e)"
  by (cases m) (simp add: then_py_def)

lemma then_py_Inr: "snd m = Inr x \<Longrightarrow> then_py m f = (fst m @ fst (f x), snd (f x))"
  by (cases m; cases "f x") (simp add: then_py_def)

lemma try_except_Inr: "snd m = Inr x \<Longrightarrow> try_except m h = m"
  by (cases m) (simp add: try_except_def)

lemma try_except_Inl: "snd m = Inl e \<Longrightarrow> try_except m h = (fst m @ fst (h e), snd (h e))"
  by (cases m; cases "h e") (simp add: try_except_def)

lemma fst_then_py:
  "fst (then_py m f) = fst m @ (case snd m of Inl e \<Rightarrow> [] | Inr x \<Rightarrow> fst (f x))"
  by (cases "snd m") (simp_all add: then_py_Inl then_py_Inr)

lemma fst_try_except:
  "fst (try_except m h) = fst m @ (case snd m of Inl e \<Rightarrow> fst (h e) | Inr x \<Rightarrow> [])"
  by (cases "snd m") (simp_all add: try_except_Inl try_except_Inr)

lemma then_py_returns:
  "snd (then_py m f) = Inr y \<Longrightarrow> \<exists>x. snd m = Inr x \<and> snd (f x) = Inr y"
  by (cases "snd m") (simp_all add: then_py_Inl then_py_Inr)

lemma then_py_raises:
  "snd (then_py m f) = Inl e \<Longrightarrow> snd m = Inl e \<or> (\<exists>x. snd m = Inr x \<and> snd (f x) = Inl e)"
  by (cases "snd m") (simp_all add: then_py_Inl then_py_Inr)

text \<open>
  Claim C10. \<^verbatim>\<open>fetch_whale_trades\<close> never reads \<^verbatim>\<open>market_id\<close>: with the same \<^verbatim>\<open>since\<close> and
  the same answers of the endpoint and of the console, the command of \<^verbatim>\<open>main.py\<close> does
  and returns the same for any two market filters.
\<close>

theorem market_filter_unused:
  "track_whales_main con exec m1 since = track_whales_main con exec m2 since"
  by (simp add: track_whales_main_def update_display_main_def fetch_whale_trades_def)

theorem market_filter_unused_witness:
  "track_whales_main prints_all (serving_trades [ctf_whale]) ''all'' 0
     = track_whales_main prints_all (serving_trades [ctf_whale]) ''0x123'' 0
   \<and> snd (track_whales_main prints_all (serving_trades [ctf_whale]) ''all'' 0)
     = Inr [Row ''0xa11ce...'' 75000 ''Rain?...'' 100]"
  using market_filter_unused [of prints_all "serving_trades [ctf_whale]" "''all''" 0 "''0x123''"]
  by (simp add: track_whales_main_def update_display_main_def fetch_whale_trades_def
        serving_trades_def no_keys_def call_def then_py_def pure_py_def return_py_def
        whale_of_def ctf_whale_def WHALE_THRESHOLD_USD_def sorted_reverse_def)

lemma int_py_bounds:
  "0 \<le> x \<Longrightarrow> of_int (int_py x) \<le> x \<and> x < of_int (int_py x) + 1"
  using floor_correct [of x] by (simp add: int_py_def)

lemma fetch_from_subgraph_first:
  "\<exists>evs. fst (fetch_from_subgraph con up q v) = Execute q v # evs"
  by (auto simp: fetch_from_subgraph_def try_except_def call_def split: prod.splits sum.splits)

text \<open>Which requests a trace can hold: only \<^verbatim>\<open>fetch_from_subgraph\<close> sends any.\<close>

lemma whale_events_no_request: "Execute d v \<notin> set (fst (whale_events nd evs))"
  by (induction evs) (auto simp: fst_then_py return_py_def call_def Let_def split: sum.splits)

lemma rpc_fallback_trades_no_request: "Execute d v \<notin> set (fst (rpc_fallback_trades con nd))"
  unfolding rpc_fallback_trades_def rpc_fallback_try_def
  by (auto simp: fst_try_except fst_then_py return_py_def call_def console_print_def Let_def
        whale_events_no_request split: sum.splits)

lemma fetch_from_subgraph_requests:
  "Execute d v \<in> set (fst (fetch_from_subgraph con up q vs)) \<Longrightarrow>
   (d = q \<and> v = vs) \<or> (d = intro_query \<and> v = [])"
  unfolding fetch_from_subgraph_def
  by (auto simp: fst_try_except fst_then_py return_py_def pure_py_def call_def console_print_def
        rpc_fallback_trades_no_request split: sum.splits)

lemma display_loop_no_request: "Execute d v \<notin> set (fst (display_loop con cfg post k ts n))"
  by (induction ts arbitrary: k n)
     (auto simp: fst_then_py return_py_def call_def console_print_def send_telegram_alert_def
        split: sum.splits)

lemma update_display_requests:
  "Execute TRADE_QUERY vars \<in> set (fst (update_display con cfg post up1 up2 since)) \<Longrightarrow>
   vars = [(''timestamp'', IntVar since), (''amount'', StrVar ''50000000000.0'')]"
  unfolding update_display_def Let_def
  by (auto simp: fst_then_py return_py_def pure_py_def call_def console_print_def
        display_loop_no_request dest!: fetch_from_subgraph_requests split: sum.splits if_splits)

lemma update_display_query:
  assumes "snd (fetch_from_subgraph con up1 MARKETS_QUERY []) = Inr b"
  shows "Execute TRADE_QUERY [(''timestamp'', IntVar since), (''amount'', StrVar ''50000000000.0'')]
     \<in> set (fst (update_display con cfg post up1 up2 since))"
proof -
  let ?vars = "[(''timestamp'', IntVar since), (''amount'', StrVar ''50000000000.0'')]"
  obtain evs where
    evs: "fst (fetch_from_subgraph con up2 TRADE_QUERY ?vars) = Execute TRADE_QUERY ?vars # evs"
    using fetch_from_subgraph_first by blast
  show ?thesis
    unfolding update_display_def then_py_Inr [OF assms] Let_def
    by (simp add: fst_then_py evs)
qed

lemma fetch_whale_trades_query:
  "Execute QUERY [(''timestamp'', IntVar since)]
     \<in> set (fst (track_whales_main con exec m since))"
  unfolding track_whales_main_def update_display_main_def fetch_whale_trades_def Let_def
  by (simp add: fst_then_py call_def)

text \<open>
  Claim C4, as amended. The default of \<^verbatim>\<open>since\<close> is the current time minus the lookback
  span (24 hours in \<^verbatim>\<open>goldsky.py\<close>, one hour in \<^verbatim>\<open>main.py\<close>) in milliseconds since the
  epoch, cut to an integer; the command passes \<^verbatim>\<open>since\<close> unchanged as the \<^verbatim>\<open>timestamp\<close>
  variable of its query: \<^verbatim>\<open>main.py\<close> always sends that query, \<^verbatim>\<open>goldsky.py\<close> sends it
  once the fetch of the top markets has returned, and sends the trades query with no
  other variables.
\<close>

theorem since_default_milliseconds:
  "(86400 \<le> now \<longrightarrow>
      of_int (since_default now) \<le> (now - 86400) * 1000
      \<and> (now - 86400) * 1000 < of_int (since_default now) + 1)
   \<and> (3600 \<le> now \<longrightarrow>
      of_int (since_default_main now) \<le> (now - 3600) * 1000
      \<and> (now - 3600) * 1000 < of_int (since_default_main now) + 1)
   \<and> (snd (fetch_from_subgraph con up1 MARKETS_QUERY []) = Inr b \<longrightarrow>
      Execute TRADE_QUERY [(''timestamp'', IntVar since), (''amount'', StrVar ''50000000000.0'')]
        \<in> set (fst (track_whales con cfg post up1 up2 since)))
   \<and> (Execute TRADE_QUERY vars \<in> set (fst (track_whales con cfg post up1 up2 since)) \<longrightarrow>
      vars = [(''timestamp'', IntVar since), (''amount'', StrVar ''50000000000.0'')])
   \<and> Execute QUERY [(''timestamp'', IntVar since)]
        \<in> set (fst (track_whales_main con exec m since))"
proof (intro conjI impI)
  assume "86400 \<le> now"
  then have "0 \<le> (now - 86400) * 1000" by simp
  from int_py_bounds [OF this]
  show "of_int (since_default now) \<le> (now - 86400) * 1000"
    and "(now - 86400) * 1000 < of_int (since_default now) + 1"
    unfolding since_default_def by simp_all
next
  assume "3600 \<le> now"
  then have "0 \<le> (now - 3600) * 1000" by simp
  from int_py_bounds [OF this]
  show "of_int (since_default_main now) \<le> (now - 3600) * 1000"
    and "(now - 3600) * 1000 < of_int (since_default_main now) + 1"
    unfolding since_default_main_def by simp_all
next
  assume "snd (fetch_from_subgraph con up1 MARKETS_QUERY []) = Inr b"
  then show "Execute TRADE_QUERY
        [(''timestamp'', IntVar since), (''amount'', StrVar ''50000000000.0'')]
        \<in> set (fst (track_whales con cfg post up1 up2 since))"
    unfolding track_whales_def by (rule update_display_query)
next
  assume "Execute TRADE_QUERY vars \<in> set (fst (track_whales con cfg post up1 up2 since))"
  then show "vars = [(''timestamp'', IntVar since), (''amount'', StrVar ''50000000000.0'')]"
    unfolding track_whales_def by (rule update_display_requests)
next
  show "Execute QUERY [(''timestamp'', IntVar since)]
        \<in> set (fst (track_whales_main con exec m since))"
    by (rule fetch_whale_trades_query)
qed

theorem since_default_milliseconds_counterexample:
  "since_default 1700000000 = 1699913600000
   \<and> since_default 1700000000 \<noteq> 1700000000 - 86400
   \<and> since_default_main 1700000000 = 1699996400000
   \<and> since_default_main 1700000000 \<noteq> 1700000000 - 3600"
  by (simp add: since_default_def since_default_main_def int_py_def)

theorem since_default_milliseconds_witness:
  "rat_of_int (since_default (1700000000 + 1 / 2)) \<le> (1700000000 + 1 / 2 - 86400) * 1000
   \<and> since_default (1700000000 + 1 / 2) = 1699913600500
   \<and> since_default_main (1700000000 + 1 / 2) = 1699996400500
   \<and> Execute TRADE_QUERY [(''timestamp'', IntVar 1699913600500),
                           (''amount'', StrVar ''50000000000.0'')]
        \<in> set (fst (track_whales prints_all as_shipped (\<lambda>k. Inr ()) (serving [])
                      (serving [fpmm_whale]) 1699913600500))"
  using since_default_milliseconds [of "1700000000 + 1 / 2" prints_all "serving []"
      "no_keys\<lparr>fixedProductMarketMakers := Some []\<rparr>" 1699913600500 as_shipped
      "\<lambda>k. Inr ()" "serving [fpmm_whale]"
      "[(''timestamp'', IntVar 1699913600500), (''amount'', StrVar ''50000000000.0'')]"]
  by (simp add: since_default_def since_default_main_def int_py_def fetch_from_subgraph_def
        serving_def try_except_def call_def)


section \<open>Filtering and ranking\<close>

lemma sorted_reverse_sorted: "sorted_wrt (\<lambda>a b. k b \<le> k a) (sorted_reverse k xs)"
proof -
  have "sorted (map (\<lambda>x. - k x) (sort_key (\<lambda>x. - k x) xs))"
    by (rule sorted_sort_key)
  then show ?thesis
    by (simp add: sorted_map sorted_reverse_def)
qed

lemma set_sorted_reverse: "set (sorted_reverse k xs) = set xs"
  by (simp add: sorted_reverse_def)

lemma display_loop_rows:
  "snd (display_loop con cfg post k ts d) = Inr rows \<Longrightarrow> rows = map table_row (take (10 - d) ts)"
proof (induction ts arbitrary: k d rows)
  case Nil
  then show ?case by (simp add: return_py_def)
next
  case (Cons t ts)
  show ?case
  proof (cases "10 \<le> d")
    case True
    with Cons.prems show ?thesis by (simp add: return_py_def)
  next
    case False
    from False obtain n where n: "10 - d = Suc n"
      by (cases "10 - d") auto
    then have "10 - (d + 1) = n" by arith
    with n have tk: "take (10 - d) (t # ts) = t # take (10 - (d + 1)) ts"
      by simp
    show ?thesis
    proof (cases "ALERT_THRESHOLD_USD \<le> size_usd t")
      case True
      from Cons.prems False True obtain rest where
        rest: "snd (display_loop con cfg post (if configured cfg then Suc k else k) ts (d + 1)) = Inr rest"
        and rows: "rows = table_row t # rest"
        by (auto dest!: then_py_returns simp: return_py_def)
      from Cons.IH [OF rest] rows tk show ?thesis by simp
    next
      case notalert: False
      from Cons.prems False notalert obtain rest where
        rest: "snd (display_loop con cfg post k ts (d + 1)) = Inr rest"
        and rows: "rows = table_row t # rest"
        by (auto dest!: then_py_returns simp: return_py_def)
      from Cons.IH [OF rest] rows tk show ?thesis by simp
    qed
  qed
qed

lemma fetch_whale_trades_result:
  "snd (fetch_whale_trades exec market_id since_ts) = Inr out \<Longrightarrow>
   \<exists>ts ws. whales_loop ts = Inr ws \<and> out = take 10 (sorted_reverse amount_usd ws)"
proof -
  assume "snd (fetch_whale_trades exec market_id since_ts) = Inr out"
  then obtain ts ws where "whales_loop ts = Inr ws"
    and "out = take 10 (sorted_reverse amount_usd ws)"
    unfolding fetch_whale_trades_def Let_def
    by (auto dest!: then_py_returns simp: pure_py_def return_py_def)
  then show ?thesis by blast
qed


lemma whale_events_sizes:
  "snd (whale_events nd evs) = Inr es \<Longrightarrow> e \<in> set es \<Longrightarrow>
   \<exists>n. size_usd e = of_nat n / 10 ^ 6 \<and> WHALE_THRESHOLD_USD \<le> size_usd e"
proof (induction evs arbitrary: es)
  case Nil
  then show ?case by (simp add: return_py_def)
next
  case (Cons ev evs)
  let ?size = "(of_nat (arg_investmentAmount ev) :: rat) / 10 ^ 6"
  show ?case
  proof (cases "WHALE_THRESHOLD_USD \<le> ?size")
    case True
    from Cons.prems(1) True obtain ts rest where
      rest: "snd (whale_events nd evs) = Inr rest"
      and es: "es = \<lparr> wallet = arg_buyer ev, size_usd = ?size,
                      market_label = ''Market '' @ take 10 (arg_market ev) @ ''...'',
                      time_stamp = ts \<rparr> # rest"
      by (auto dest!: then_py_returns simp: return_py_def Let_def)
    from Cons.prems(2) es consider "size_usd e = ?size" | "e \<in> set rest" by auto
    then show ?thesis
    proof cases
      case 1
      with True show ?thesis by auto
    next
      case 2
      with Cons.IH [OF rest] show ?thesis .
    qed
  next
    case False
    with Cons.prems(1) have "snd (whale_events nd evs) = Inr es"
      by (simp add: Let_def)
    from Cons.IH [OF this Cons.prems(2)] show ?thesis .
  qed
qed

lemma fallback_record_normalizes:
  assumes "size_usd e = of_nat n / 10 ^ 6"
  shows "\<exists>w. normalize_trade (fallback_record e) = Inr w \<and> size_usd w = size_usd e"
proof -
  have "size_usd e * 10 ^ 6 = of_nat n" using assms by simp
  then have "int_py (size_usd e * 10 ^ 6) = int n"
    by (simp add: int_py_def)
  then show ?thesis
    using assms by (simp add: normalize_trade_def fallback_record_def)
qed

text \<open>
  Claim C1, as amended. \<^verbatim>\<open>fetch_whale_trades\<close> of \<^verbatim>\<open>main.py\<close> returns at most 10 trades,
  sorted non-increasing, each at or above the whale threshold. The display loop of
  \<^verbatim>\<open>goldsky.py\<close> emits at most 10 rows, sorted non-increasing, all taken from the fetched
  batch; it applies no threshold of its own, so its rows are at or above the threshold
  when the whole batch is. The batch of the RPC fallback always is.
\<close>

theorem filter_and_rank:
  "(snd (fetch_whale_trades exec market_id since_ts) = Inr out \<longrightarrow>
      sorted_wrt (\<lambda>a b. amount_usd b \<le> amount_usd a) out
      \<and> (\<forall>w\<in>set out. WHALE_THRESHOLD_USD \<le> amount_usd w)
      \<and> length out \<le> 10)
   \<and> (snd (display_loop con cfg post 0 (sorted_reverse size_usd batch) 0) = Inr rows \<longrightarrow>
      (\<exists>shown. rows = map table_row shown
         \<and> sorted_wrt (\<lambda>a b. size_usd b \<le> size_usd a) shown
         \<and> length shown \<le> 10
         \<and> set shown \<subseteq> set batch
         \<and> ((\<forall>w\<in>set batch. WHALE_THRESHOLD_USD \<le> size_usd w) \<longrightarrow>
              (\<forall>w\<in>set shown. WHALE_THRESHOLD_USD \<le> size_usd w))))
   \<and> (snd (whale_events nd evs) = Inr es \<longrightarrow>
      (\<forall>e\<in>set es. \<exists>w. normalize_trade (fallback_record e) = Inr w
          \<and> WHALE_THRESHOLD_USD \<le> size_usd w))"
proof (intro conjI impI)
  assume "snd (fetch_whale_trades exec market_id since_ts) = Inr out"
  then obtain ts ws where ws: "whales_loop ts = Inr ws"
    and out: "out = take 10 (sorted_reverse amount_usd ws)"
    using fetch_whale_trades_result by blast
  show "sorted_wrt (\<lambda>a b. amount_usd b \<le> amount_usd a) out"
    unfolding out by (intro sorted_wrt_take sorted_reverse_sorted)
  show "length out \<le> 10"
    unfolding out by simp
  show "\<forall>w\<in>set out. WHALE_THRESHOLD_USD \<le> amount_usd w"
  proof
    fix w assume "w \<in> set out"
    then have "w \<in> set ws"
      unfolding out using set_take_subset [of 10 "sorted_reverse amount_usd ws"]
      by (auto simp: set_sorted_reverse)
    with ws show "WHALE_THRESHOLD_USD \<le> amount_usd w"
      by (rule whales_loop_amount)
  qed
next
  assume "snd (display_loop con cfg post 0 (sorted_reverse size_usd batch) 0) = Inr rows"
  then have rows: "rows = map table_row (take 10 (sorted_reverse size_usd batch))"
    using display_loop_rows [of con cfg post 0 "sorted_reverse size_usd batch" 0 rows] by simp
  let ?shown = "take 10 (sorted_reverse size_usd batch)"
  have sub: "set ?shown \<subseteq> set batch"
    using set_take_subset [of 10 "sorted_reverse size_usd batch"]
    by (simp add: set_sorted_reverse)
  have "sorted_wrt (\<lambda>a b. size_usd b \<le> size_usd a) ?shown"
    by (intro sorted_wrt_take sorted_reverse_sorted)
  moreover have "length ?shown \<le> 10" by simp
  moreover have "(\<forall>w\<in>set batch. WHALE_THRESHOLD_USD \<le> size_usd w) \<longrightarrow>
      (\<forall>w\<in>set ?shown. WHALE_THRESHOLD_USD \<le> size_usd w)"
    using sub by blast
  ultimately show "\<exists>shown. rows = map table_row shown
         \<and> sorted_wrt (\<lambda>a b. size_usd b \<le> size_usd a) shown
         \<and> length shown \<le> 10
         \<and> set shown \<subseteq> set batch
         \<and> ((\<forall>w\<in>set batch. WHALE_THRESHOLD_USD \<le> size_usd w) \<longrightarrow>
              (\<forall>w\<in>set shown. WHALE_THRESHOLD_USD \<le> size_usd w))"
    using rows sub by blast
next
  assume es: "snd (whale_events nd evs) = Inr es"
  show "\<forall>e\<in>set es. \<exists>w. normalize_trade (fallback_record e) = Inr w
          \<and> WHALE_THRESHOLD_USD \<le> size_usd w"
  proof
    fix e assume "e \<in> set es"
    from whale_events_sizes [OF es this] obtain n where
      n: "size_usd e = of_nat n / 10 ^ 6" and big: "WHALE_THRESHOLD_USD \<le> size_usd e"
      by blast
    from fallback_record_normalizes [OF n] big
    show "\<exists>w. normalize_trade (fallback_record e) = Inr w \<and> WHALE_THRESHOLD_USD \<le> size_usd w"
      by auto
  qed
qed

theorem filter_and_rank_counterexample:
  "snd (update_display prints_all as_shipped (\<lambda>k. Inr ()) (serving []) (serving [fpmm_dollar]) 0)
     = Inr [Row ''0xb0b...'' 1 ''Rain?...'' 100]
   \<and> (1 :: rat) < WHALE_THRESHOLD_USD"
  by (simp add: update_display_def fetch_from_subgraph_def serving_def try_except_def call_def
        then_py_def return_py_def pure_py_def no_keys_def normalize_trade_def fpmm_dollar_def
        fpmm_whale_def sorted_reverse_def ALERT_THRESHOLD_USD_def WHALE_THRESHOLD_USD_def
        table_row_def)


theorem filter_and_rank_witness:
  "snd (fetch_whale_trades (serving_trades [ctf_whale]) ''all'' 0)
     = Inr [\<lparr> whale_wallet = ''0xa11ce'', amount_usd = 75000, whale_market = ''Rain?...'',
               whale_timestamp = 100 \<rparr>]
   \<and> snd (display_loop prints_all as_shipped (\<lambda>k. Inr ()) 0 (sorted_reverse size_usd [whale_c, whale_a]) 0)
     = Inr (map table_row [whale_a, whale_c])
   \<and> (\<exists>shown. map table_row [whale_a, whale_c] = map table_row shown
         \<and> sorted_wrt (\<lambda>a b. size_usd b \<le> size_usd a) shown
         \<and> length shown \<le> 10 \<and> set shown \<subseteq> set [whale_c, whale_a])
   \<and> (\<exists>es. snd (whale_events live_node [\<lparr> arg_buyer = ''0xb0b'', arg_market = ''0x01'',
                     arg_investmentAmount = 60000000000, blockNumber = 4990 \<rparr>]) = Inr es
         \<and> (\<exists>w. normalize_trade (fallback_record (hd es)) = Inr w
               \<and> WHALE_THRESHOLD_USD \<le> size_usd w))"
proof -
  have a: "snd (fetch_whale_trades (serving_trades [ctf_whale]) ''all'' 0)
     = Inr [\<lparr> whale_wallet = ''0xa11ce'', amount_usd = 75000, whale_market = ''Rain?...'',
               whale_timestamp = 100 \<rparr>]"
    by (simp add: fetch_whale_trades_def serving_trades_def no_keys_def call_def then_py_def
        pure_py_def return_py_def whale_of_def ctf_whale_def WHALE_THRESHOLD_USD_def
        sorted_reverse_def)
  have b: "snd (display_loop prints_all as_shipped (\<lambda>k. Inr ()) 0 (sorted_reverse size_usd [whale_c, whale_a]) 0)
     = Inr (map table_row [whale_a, whale_c])"
    by (simp add: sorted_reverse_def whale_a_def whale_c_def ALERT_THRESHOLD_USD_def
        send_telegram_alert_def configured_def as_shipped_def then_py_def return_py_def
        console_print_def call_def prints_all_def)
  have c: "snd (whale_events live_node [\<lparr> arg_buyer = ''0xb0b'', arg_market = ''0x01'',
                     arg_investmentAmount = 60000000000, blockNumber = 4990 \<rparr>])
     = Inr [\<lparr> wallet = ''0xb0b'', size_usd = 60000, market_label = ''Market 0x01...'',
               time_stamp = 100 \<rparr>]"
    by (simp add: live_node_def WHALE_THRESHOLD_USD_def call_def then_py_def return_py_def)
  note inst = filter_and_rank [of "serving_trades [ctf_whale]" "''all''" 0 _ prints_all as_shipped
      "\<lambda>k. Inr ()" "[whale_c, whale_a]" _ live_node _ _]
  from inst [THEN conjunct2, THEN conjunct1, rule_format, OF b]
  have "\<exists>shown. map table_row [whale_a, whale_c] = map table_row shown
         \<and> sorted_wrt (\<lambda>a b. size_usd b \<le> size_usd a) shown
         \<and> length shown \<le> 10 \<and> set shown \<subseteq> set [whale_c, whale_a]"
    by blast
  moreover from inst [THEN conjunct2, THEN conjunct2, rule_format, OF c]
  have "\<exists>w. normalize_trade (fallback_record \<lparr> wallet = ''0xb0b'', size_usd = 60000,
               market_label = ''Market 0x01...'', time_stamp = 100 \<rparr>) = Inr w
               \<and> WHALE_THRESHOLD_USD \<le> size_usd w"
    by simp
  ultimately show ?thesis using a b c by simp
qed


section \<open>The source router\<close>

lemma rpc_fallback_trades_first:
  "\<exists>evs. fst (rpc_fallback_trades con nd) = Web3 Contract # evs"
  unfolding rpc_fallback_trades_def rpc_fallback_try_def
  by (cases "contract nd")
     (auto simp: try_except_def then_py_def call_def console_print_def return_py_def
        split: prod.splits sum.splits)

lemma rpc_fallback_trades_raises:
  "snd (rpc_fallback_trades con nd) = Inl x \<Longrightarrow> \<exists>e. con (RpcFallbackLimited e) = Inl x"
  unfolding rpc_fallback_trades_def
  by (cases "snd (rpc_fallback_try nd)")
     (auto simp: try_except_Inl try_except_Inr then_py_def console_print_def call_def
        return_py_def split: sum.splits)

lemma rpc_fallback_trades_empty:
  "snd (rpc_fallback_try nd) = Inl e \<Longrightarrow> con (RpcFallbackLimited e) = Inr () \<Longrightarrow>
   snd (rpc_fallback_trades con nd) = Inr (no_keys\<lparr>fixedProductMarketMakers := Some []\<rparr>)"
  unfolding rpc_fallback_trades_def
  by (simp add: try_except_Inl then_py_def console_print_def call_def return_py_def)

lemma probe_swallowed:
  "\<exists>probe.
     try_except
       (then_py (call (Execute intro_query []) (execute up intro_query [])) (\<lambda>intro.
        then_py (pure_py (subscript ''__schema'' (schema_fields intro))) (\<lambda>fields.
        console_print con (AvailableFields (take 10 fields)))))
       (\<lambda>e'. return_py ())
     = (Execute intro_query [] # probe, Inr ())
     \<and> (probe = [] \<or> (\<exists>fields. probe = [Print (AvailableFields fields)]))"
proof (cases "execute up intro_query []")
  case (Inl e)
  then show ?thesis
    by (simp add: try_except_def then_py_def call_def return_py_def)
next
  case (Inr intro)
  then show ?thesis
    by (cases "schema_fields intro"; cases "con (AvailableFields (take 10 (the (schema_fields intro))))")
       (simp_all add: try_except_def then_py_def call_def return_py_def pure_py_def
          console_print_def)
qed

lemma fetch_from_subgraph_logged:
  assumes "execute up query vars = Inl e" and "con (SubgraphFetchFailed e) = Inr ()"
  shows "\<exists>probe. fetch_from_subgraph con up query vars
           = ([Execute query vars, Print (SubgraphFetchFailed e), Execute intro_query []]
                @ probe @ fst (rpc_fallback_trades con (w3 up)),
              snd (rpc_fallback_trades con (w3 up)))
         \<and> (probe = [] \<or> (\<exists>fields. probe = [Print (AvailableFields fields)]))"
proof -
  from probe_swallowed [of up con] obtain probe where
    p: "try_except
       (then_py (call (Execute intro_query []) (execute up intro_query [])) (\<lambda>intro.
        then_py (pure_py (subscript ''__schema'' (schema_fields intro))) (\<lambda>fields.
        console_print con (AvailableFields (take 10 fields)))))
       (\<lambda>e'. return_py ())
     = (Execute intro_query [] # probe, Inr ())"
    and shape: "probe = [] \<or> (\<exists>fields. probe = [Print (AvailableFields fields)])"
    by blast
  have "fetch_from_subgraph con up query vars
           = ([Execute query vars, Print (SubgraphFetchFailed e), Execute intro_query []]
                @ probe @ fst (rpc_fallback_trades con (w3 up)),
              snd (rpc_fallback_trades con (w3 up)))"
    unfolding fetch_from_subgraph_def p
    using assms
    by (cases "rpc_fallback_trades con (w3 up)")
       (simp add: try_except_def call_def then_py_def console_print_def)
  with shape show ?thesis by blast
qed

lemma fetch_from_subgraph_unlogged:
  assumes "execute up query vars = Inl e" and "con (SubgraphFetchFailed e) = Inl x"
  shows "fetch_from_subgraph con up query vars
           = ([Execute query vars, Print (SubgraphFetchFailed e)], Inl x)"
  unfolding fetch_from_subgraph_def using assms
  by (simp add: try_except_def call_def then_py_def console_print_def)

text \<open>
  With a console that prints its two log lines, the router does what its structure
  intends: the probe changes nothing, the fallback's batch is returned, and a failure
  of both sources gives the empty batch.
\<close>

lemma fallback_when_logged:
  assumes "execute up query vars = Inl e" and "con (SubgraphFetchFailed e) = Inr ()"
  shows "snd (fetch_from_subgraph con up query vars) = snd (rpc_fallback_trades con (w3 up))"
    and "snd (rpc_fallback_try (w3 up)) = Inl e' \<Longrightarrow> con (RpcFallbackLimited e') = Inr () \<Longrightarrow>
         snd (fetch_from_subgraph con up query vars)
           = Inr (no_keys\<lparr>fixedProductMarketMakers := Some []\<rparr>)"
  using fetch_from_subgraph_logged [where con = con, OF assms] rpc_fallback_trades_empty [of "w3 up" e' con]
  by auto

lemma fetch_from_subgraph_raises:
  assumes "snd (fetch_from_subgraph con up query vars) = Inl x"
  shows "\<exists>m. con m = Inl x"
proof (cases "execute up query vars")
  case (Inr b)
  with assms show ?thesis
    by (simp add: fetch_from_subgraph_def try_except_def call_def)
next
  case (Inl e)
  show ?thesis
  proof (cases "con (SubgraphFetchFailed e)")
    case bad: (Inl y)
    from fetch_from_subgraph_unlogged [where con = con, OF Inl bad] assms have "y = x" by simp
    with bad show ?thesis by blast
  next
    case ok: (Inr u)
    then have "con (SubgraphFetchFailed e) = Inr ()" by simp
    from fetch_from_subgraph_logged [where con = con, OF Inl this] assms
    have "snd (rpc_fallback_trades con (w3 up)) = Inl x" by auto
    from rpc_fallback_trades_raises [OF this] show ?thesis by blast
  qed
qed

text \<open>
  Claim C3. The claim does not hold of the code: the \<^verbatim>\<open>except\<close> block of
  \<^verbatim>\<open>fetch_from_subgraph\<close> first prints the exception's text as markup. When the primary
  fetch raises with a message that holds a stray closing tag, the console raises, and
  that exception leaves \<^verbatim>\<open>fetch_from_subgraph\<close> before the probe and the fallback are
  tried; with an ordinary message the fallback's batch is returned. Whatever leaves
  \<^verbatim>\<open>fetch_from_subgraph\<close> was raised by the console.
\<close>

theorem fallback_escapes_through_console:
  "fetch_from_subgraph rich_console (unreachable ''bad [/x] tag'' live_node) TRADE_QUERY []
     = ([Execute TRADE_QUERY [], Print (SubgraphFetchFailed (RequestError ''bad [/x] tag''))],
        Inl MarkupError)
   \<and> fetch_from_subgraph rich_console (unreachable ''down'' dead_node) TRADE_QUERY []
     = ([Execute TRADE_QUERY [], Print (SubgraphFetchFailed (RequestError ''down'')),
         Execute intro_query [], Web3 Contract, Print (RpcFallbackLimited (RequestError ''node''))],
        Inr (no_keys\<lparr>fixedProductMarketMakers := Some []\<rparr>))
   \<and> (snd (fetch_from_subgraph con up query vars) = Inl x \<longrightarrow> (\<exists>m. con m = Inl x))"
proof (intro conjI impI)
  show "fetch_from_subgraph rich_console (unreachable ''bad [/x] tag'' live_node) TRADE_QUERY []
     = ([Execute TRADE_QUERY [], Print (SubgraphFetchFailed (RequestError ''bad [/x] tag''))],
        Inl MarkupError)"
    by (rule fetch_from_subgraph_unlogged [where con = rich_console])
       (simp_all add: unreachable_def rich_console_def)
  show "fetch_from_subgraph rich_console (unreachable ''down'' dead_node) TRADE_QUERY []
     = ([Execute TRADE_QUERY [], Print (SubgraphFetchFailed (RequestError ''down'')),
         Execute intro_query [], Web3 Contract, Print (RpcFallbackLimited (RequestError ''node''))],
        Inr (no_keys\<lparr>fixedProductMarketMakers := Some []\<rparr>))"
    by (simp add: fetch_from_subgraph_def rpc_fallback_trades_def rpc_fallback_try_def
        unreachable_def dead_node_def try_except_def then_py_def call_def console_print_def
        return_py_def pure_py_def rich_console_def)
  assume "snd (fetch_from_subgraph con up query vars) = Inl x"
  then show "\<exists>m. con m = Inl x" by (rule fetch_from_subgraph_raises)
qed

theorem fallback_escapes_through_console_witness:
  "snd (fetch_from_subgraph rich_console (unreachable ''bad [/x] tag'' live_node) TRADE_QUERY [])
     = Inl MarkupError
   \<and> (\<exists>m. rich_console m = Inl MarkupError)"
  using fallback_escapes_through_console [of rich_console
      "unreachable ''bad [/x] tag'' live_node" TRADE_QUERY "[]" MarkupError]
  by simp


section \<open>Alert dispatch\<close>

lemma posted_append: "posted (xs @ ys) = posted xs @ posted ys"
  by (induction xs rule: posted.induct) simp_all

lemma alert_lines_append: "alert_lines (xs @ ys) = alert_lines xs @ alert_lines ys"
  by (induction xs rule: alert_lines.induct) simp_all

lemma then_py_return:
  "then_py m (\<lambda>x. return_py (g x))
     = (fst m, case snd m of Inl e \<Rightarrow> Inl e | Inr x \<Rightarrow> Inr (g x))"
  by (cases m; cases "snd m") (auto simp: then_py_def return_py_def)

lemma alerted_Nil: "alerted d [] = []"
  by (simp add: alerted_def)

lemma alerted_full: "10 \<le> d \<Longrightarrow> alerted d ts = []"
  by (simp add: alerted_def)

lemma take_step: "d < 10 \<Longrightarrow> take (10 - d) (t # ts) = t # take (10 - (d + 1)) ts"
proof -
  assume "d < 10"
  then obtain n where n: "10 - d = Suc n"
    by (cases "10 - d") auto
  then have "10 - (d + 1) = n" by arith
  with n show ?thesis by simp
qed

lemma alerted_Cons:
  "d < 10 \<Longrightarrow>
   alerted d (t # ts)
     = (if ALERT_THRESHOLD_USD \<le> size_usd t then t # alerted (d + 1) ts else alerted (d + 1) ts)"
  by (simp add: alerted_def take_step)

text \<open>One turn of the display loop, by what the sink and the console answer.\<close>

lemma display_loop_quiet:
  "d < 10 \<Longrightarrow> \<not> ALERT_THRESHOLD_USD \<le> size_usd t \<Longrightarrow>
   display_loop con cfg post k (t # ts) d
     = (fst (display_loop con cfg post k ts (d + 1)),
        case snd (display_loop con cfg post k ts (d + 1)) of
          Inl e \<Rightarrow> Inl e | Inr rows \<Rightarrow> Inr (table_row t # rows))"
  by (simp add: then_py_return)

lemma display_loop_announced:
  "d < 10 \<Longrightarrow> ALERT_THRESHOLD_USD \<le> size_usd t \<Longrightarrow> configured cfg \<longrightarrow> post k = Inr () \<Longrightarrow>
   con (WhaleAlert (alert_of t)) = Inr () \<Longrightarrow>
   display_loop con cfg post k (t # ts) d
     = ((if configured cfg then [Post (TELEGRAM_CHAT_ID cfg) (alert_of t)] else [])
          @ Print (WhaleAlert (alert_of t))
          # fst (display_loop con cfg post (if configured cfg then Suc k else k) ts (d + 1)),
        case snd (display_loop con cfg post (if configured cfg then Suc k else k) ts (d + 1)) of
          Inl e \<Rightarrow> Inl e | Inr rows \<Rightarrow> Inr (table_row t # rows))"
  by (auto simp: send_telegram_alert_def call_def return_py_def console_print_def then_py_def
        split: prod.splits sum.splits)

lemma display_loop_post_fails:
  "d < 10 \<Longrightarrow> ALERT_THRESHOLD_USD \<le> size_usd t \<Longrightarrow> configured cfg \<Longrightarrow> post k = Inl e \<Longrightarrow>
   display_loop con cfg post k (t # ts) d = ([Post (TELEGRAM_CHAT_ID cfg) (alert_of t)], Inl e)"
  by (simp add: send_telegram_alert_def call_def then_py_def)

lemma display_loop_print_fails:
  "d < 10 \<Longrightarrow> ALERT_THRESHOLD_USD \<le> size_usd t \<Longrightarrow> configured cfg \<longrightarrow> post k = Inr () \<Longrightarrow>
   con (WhaleAlert (alert_of t)) = Inl e \<Longrightarrow>
   display_loop con cfg post k (t # ts) d
     = ((if configured cfg then [Post (TELEGRAM_CHAT_ID cfg) (alert_of t)] else [])
          @ [Print (WhaleAlert (alert_of t))], Inl e)"
  by (auto simp: send_telegram_alert_def call_def return_py_def console_print_def then_py_def
        split: prod.splits sum.splits)

lemma display_loop_uninterrupted:
  "configured cfg \<longrightarrow> (\<forall>i < length (alerted d ts). post (k + i) = Inr ()) \<Longrightarrow>
   \<forall>t\<in>set (alerted d ts). con (WhaleAlert (alert_of t)) = Inr () \<Longrightarrow>
   posted (fst (display_loop con cfg post k ts d))
     = (if configured cfg then map alert_of (alerted d ts) else [])
   \<and> alert_lines (fst (display_loop con cfg post k ts d)) = map alert_of (alerted d ts)
   \<and> snd (display_loop con cfg post k ts d) = Inr (map table_row (take (10 - d) ts))"
proof (induction ts arbitrary: d k)
  case Nil
  then show ?case by (simp add: return_py_def alerted_Nil)
next
  case (Cons t ts)
  show ?case
  proof (cases "d < 10")
    case False
    then show ?thesis by (simp add: return_py_def alerted_full)
  next
    case True
    show ?thesis
    proof (cases "ALERT_THRESHOLD_USD \<le> size_usd t")
      case alert: True
      then have al: "alerted d (t # ts) = t # alerted (d + 1) ts"
        using True by (simp add: alerted_Cons)
      have ok: "configured cfg \<longrightarrow> post k = Inr ()"
        using Cons.prems(1) unfolding al by (auto dest: spec [of _ 0])
      have pr: "con (WhaleAlert (alert_of t)) = Inr ()"
        using Cons.prems(2) unfolding al by simp
      let ?k = "if configured cfg then Suc k else k"
      have rest1: "configured cfg \<longrightarrow> (\<forall>i < length (alerted (d + 1) ts). post (?k + i) = Inr ())"
      proof (intro impI allI)
        fix i assume c: "configured cfg" and "i < length (alerted (d + 1) ts)"
        then have "Suc i < length (alerted d (t # ts))" unfolding al by simp
        with Cons.prems(1) c have "post (k + Suc i) = Inr ()" by blast
        with c show "post (?k + i) = Inr ()" by simp
      qed
      have rest2: "\<forall>t\<in>set (alerted (d + 1) ts). con (WhaleAlert (alert_of t)) = Inr ()"
        using Cons.prems(2) unfolding al by simp
      show ?thesis
        unfolding display_loop_announced [where post = post and k = k and con = con,
            OF True alert ok pr]
        using Cons.IH [OF rest1 rest2] True
        by (cases "configured cfg") (simp_all add: al take_step)
    next
      case quiet: False
      then have al: "alerted d (t # ts) = alerted (d + 1) ts"
        using True by (simp add: alerted_Cons)
      show ?thesis
        unfolding display_loop_quiet [OF True quiet]
        using Cons.IH [of "d + 1" k] Cons.prems True
        by (simp add: al take_step)
    qed
  qed
qed

lemma display_loop_sink_failure:
  "configured cfg \<Longrightarrow> j < length (alerted d ts) \<Longrightarrow> \<forall>i < j. post (k + i) = Inr () \<Longrightarrow>
   \<forall>t\<in>set (take j (alerted d ts)). con (WhaleAlert (alert_of t)) = Inr () \<Longrightarrow>
   post (k + j) = Inl e \<Longrightarrow>
   posted (fst (display_loop con cfg post k ts d)) = map alert_of (take (Suc j) (alerted d ts))
   \<and> alert_lines (fst (display_loop con cfg post k ts d)) = map alert_of (take j (alerted d ts))
   \<and> snd (display_loop con cfg post k ts d) = Inl e"
proof (induction ts arbitrary: d k j)
  case Nil
  then show ?case by (simp add: alerted_Nil)
next
  case (Cons t ts)
  have True: "d < 10"
  proof (rule ccontr)
    assume "\<not> d < 10"
    then have "alerted d (t # ts) = []" by (simp add: alerted_full)
    with Cons.prems(2) show False by simp
  qed
  show ?case
  proof (cases "ALERT_THRESHOLD_USD \<le> size_usd t")
    case quiet: False
    then have al: "alerted d (t # ts) = alerted (d + 1) ts"
      using True by (simp add: alerted_Cons)
    show ?thesis
      unfolding display_loop_quiet [OF True quiet]
      using Cons.IH [of j "d + 1" k] Cons.prems
      by (simp add: al)
  next
    case alert: True
    then have al: "alerted d (t # ts) = t # alerted (d + 1) ts"
      using True by (simp add: alerted_Cons)
    show ?thesis
    proof (cases j)
      case 0
      with Cons.prems(5) have "post k = Inl e" by simp
      from display_loop_post_fails [where post = post and k = k, OF True alert Cons.prems(1) this]
      show ?thesis using 0 by (simp add: al)
    next
      case (Suc j')
      with Cons.prems(3) have ok: "configured cfg \<longrightarrow> post k = Inr ()"
        by (auto dest: spec [of _ 0])
      have pr: "con (WhaleAlert (alert_of t)) = Inr ()"
        using Cons.prems(4) Suc unfolding al by simp
      have j': "j' < length (alerted (d + 1) ts)"
        using Cons.prems(2) Suc unfolding al by simp
      have before: "\<forall>i < j'. post (Suc k + i) = Inr ()"
      proof (intro allI impI)
        fix i assume "i < j'"
        then have "Suc i < j" using Suc by simp
        with Cons.prems(3) have "post (k + Suc i) = Inr ()" by blast
        then show "post (Suc k + i) = Inr ()" by simp
      qed
      have printed: "\<forall>t\<in>set (take j' (alerted (d + 1) ts)). con (WhaleAlert (alert_of t)) = Inr ()"
        using Cons.prems(4) Suc unfolding al by simp
      have at: "post (Suc k + j') = Inl e"
        using Cons.prems(5) Suc by simp
      show ?thesis
        unfolding display_loop_announced [where post = post and k = k and con = con,
            OF True alert ok pr]
        using Cons.IH [OF Cons.prems(1) j' before printed at] Suc Cons.prems(1)
        by (simp add: al)
    qed
  qed
qed

lemma display_loop_console_failure:
  "j < length (alerted d ts) \<Longrightarrow> configured cfg \<longrightarrow> (\<forall>i \<le> j. post (k + i) = Inr ()) \<Longrightarrow>
   \<forall>t\<in>set (take j (alerted d ts)). con (WhaleAlert (alert_of t)) = Inr () \<Longrightarrow>
   con (WhaleAlert (alert_of (alerted d ts ! j))) = Inl e \<Longrightarrow>
   posted (fst (display_loop con cfg post k ts d))
     = (if configured cfg then map alert_of (take (Suc j) (alerted d ts)) else [])
   \<and> alert_lines (fst (display_loop con cfg post k ts d))
     = map alert_of (take (Suc j) (alerted d ts))
   \<and> snd (display_loop con cfg post k ts d) = Inl e"
proof (induction ts arbitrary: d k j)
  case Nil
  then show ?case by (simp add: alerted_Nil)
next
  case (Cons t ts)
  have True: "d < 10"
  proof (rule ccontr)
    assume "\<not> d < 10"
    then have "alerted d (t # ts) = []" by (simp add: alerted_full)
    with Cons.prems(1) show False by simp
  qed
  show ?case
  proof (cases "ALERT_THRESHOLD_USD \<le> size_usd t")
    case quiet: False
    then have al: "alerted d (t # ts) = alerted (d + 1) ts"
      using True by (simp add: alerted_Cons)
    show ?thesis
      unfolding display_loop_quiet [OF True quiet]
      using Cons.IH [of j "d + 1" k] Cons.prems
      by (simp add: al)
  next
    case alert: True
    then have al: "alerted d (t # ts) = t # alerted (d + 1) ts"
      using True by (simp add: alerted_Cons)
    have ok: "configured cfg \<longrightarrow> post k = Inr ()"
      using Cons.prems(2) by (auto dest: spec [of _ 0])
    show ?thesis
    proof (cases j)
      case 0
      with Cons.prems(4) have "con (WhaleAlert (alert_of t)) = Inl e"
        unfolding al by simp
      from display_loop_print_fails [where post = post and k = k and con = con,
          OF True alert ok this]
      show ?thesis using 0 by (simp add: al posted_append alert_lines_append)
    next
      case (Suc j')
      have pr: "con (WhaleAlert (alert_of t)) = Inr ()"
        using Cons.prems(3) Suc unfolding al by simp
      have j': "j' < length (alerted (d + 1) ts)"
        using Cons.prems(1) Suc unfolding al by simp
      let ?k = "if configured cfg then Suc k else k"
      have before: "configured cfg \<longrightarrow> (\<forall>i \<le> j'. post (?k + i) = Inr ())"
      proof (intro impI allI)
        fix i assume c: "configured cfg" and "i \<le> j'"
        then have "Suc i \<le> j" using Suc by simp
        with Cons.prems(2) c have "post (k + Suc i) = Inr ()" by blast
        with c show "post (?k + i) = Inr ()" by simp
      qed
      have printed: "\<forall>t\<in>set (take j' (alerted (d + 1) ts)). con (WhaleAlert (alert_of t)) = Inr ()"
        using Cons.prems(3) Suc unfolding al by simp
      have at: "con (WhaleAlert (alert_of (alerted (d + 1) ts ! j'))) = Inl e"
        using Cons.prems(4) Suc unfolding al by simp
      show ?thesis
        unfolding display_loop_announced [where post = post and k = k and con = con,
            OF True alert ok pr]
        using Cons.IH [OF j' before printed at] Suc
        by (cases "configured cfg") (simp_all add: al)
    qed
  qed
qed


text \<open>
  Claim C5, as amended. The display loop goes through the displayed trades (the ten
  largest) at or above the alert threshold, largest first: for each it calls the sink,
  which posts only when a token is configured, and then prints the alert line. While no
  POST and no print raises, each of them is dispatched once, in that order, and the rows
  are returned. Neither call is guarded: the first POST or the first print of an alert
  line that raises ends the loop with its exception; the trades before it were
  dispatched, the one at it was attempted, and no later trade is dispatched.
\<close>

theorem alert_dispatch:
  "((configured cfg \<longrightarrow>
        (\<forall>i < length (alerted 0 (sorted_reverse size_usd batch)). post i = Inr ())) \<longrightarrow>
      (\<forall>t\<in>set (alerted 0 (sorted_reverse size_usd batch)).
          con (WhaleAlert (alert_of t)) = Inr ()) \<longrightarrow>
      posted (fst (display_loop con cfg post 0 (sorted_reverse size_usd batch) 0))
          = (if configured cfg then map alert_of (alerted 0 (sorted_reverse size_usd batch))
             else [])
      \<and> alert_lines (fst (display_loop con cfg post 0 (sorted_reverse size_usd batch) 0))
          = map alert_of (alerted 0 (sorted_reverse size_usd batch))
      \<and> (\<exists>rows. snd (display_loop con cfg post 0 (sorted_reverse size_usd batch) 0) = Inr rows))
   \<and> (configured cfg \<longrightarrow> j < length (alerted 0 (sorted_reverse size_usd batch)) \<longrightarrow>
      (\<forall>i < j. post i = Inr ()) \<longrightarrow>
      (\<forall>t\<in>set (take j (alerted 0 (sorted_reverse size_usd batch))).
          con (WhaleAlert (alert_of t)) = Inr ()) \<longrightarrow>
      post j = Inl e \<longrightarrow>
      posted (fst (display_loop con cfg post 0 (sorted_reverse size_usd batch) 0))
          = map alert_of (take (Suc j) (alerted 0 (sorted_reverse size_usd batch)))
      \<and> alert_lines (fst (display_loop con cfg post 0 (sorted_reverse size_usd batch) 0))
          = map alert_of (take j (alerted 0 (sorted_reverse size_usd batch)))
      \<and> snd (display_loop con cfg post 0 (sorted_reverse size_usd batch) 0) = Inl e)
   \<and> (n < length (alerted 0 (sorted_reverse size_usd batch)) \<longrightarrow>
      (configured cfg \<longrightarrow> (\<forall>i \<le> n. post i = Inr ())) \<longrightarrow>
      (\<forall>t\<in>set (take n (alerted 0 (sorted_reverse size_usd batch))).
          con (WhaleAlert (alert_of t)) = Inr ()) \<longrightarrow>
      con (WhaleAlert (alert_of (alerted 0 (sorted_reverse size_usd batch) ! n))) = Inl x \<longrightarrow>
      posted (fst (display_loop con cfg post 0 (sorted_reverse size_usd batch) 0))
          = (if configured cfg
             then map alert_of (take (Suc n) (alerted 0 (sorted_reverse size_usd batch)))
             else [])
      \<and> alert_lines (fst (display_loop con cfg post 0 (sorted_reverse size_usd batch) 0))
          = map alert_of (take (Suc n) (alerted 0 (sorted_reverse size_usd batch)))
      \<and> snd (display_loop con cfg post 0 (sorted_reverse size_usd batch) 0) = Inl x)"
proof (intro conjI impI)
  let ?q = "alerted 0 (sorted_reverse size_usd batch)"
  let ?l = "display_loop con cfg post 0 (sorted_reverse size_usd batch) 0"
  {
    assume a: "configured cfg \<longrightarrow> (\<forall>i < length ?q. post i = Inr ())"
      and b: "\<forall>t\<in>set ?q. con (WhaleAlert (alert_of t)) = Inr ()"
    from a have a': "configured cfg \<longrightarrow> (\<forall>i < length ?q. post (0 + i) = Inr ())" by simp
    note r = display_loop_uninterrupted [where post = post and k = 0 and con = con, OF a' b]
    from r show "posted (fst ?l) = (if configured cfg then map alert_of ?q else [])" by simp
    from r show "alert_lines (fst ?l) = map alert_of ?q" by simp
    from r show "\<exists>rows. snd ?l = Inr rows" by simp
  }
  {
    assume c: "configured cfg" and j: "j < length ?q" and ok: "\<forall>i < j. post i = Inr ()"
      and pr: "\<forall>t\<in>set (take j ?q). con (WhaleAlert (alert_of t)) = Inr ()"
      and bad: "post j = Inl e"
    from ok have ok': "\<forall>i < j. post (0 + i) = Inr ()" by simp
    from bad have bad': "post (0 + j) = Inl e" by simp
    note r = display_loop_sink_failure [where post = post and k = 0 and con = con,
        OF c j ok' pr bad']
    from r show "posted (fst ?l) = map alert_of (take (Suc j) ?q)" by simp
    from r show "alert_lines (fst ?l) = map alert_of (take j ?q)" by simp
    from r show "snd ?l = Inl e" by simp
  }
  {
    assume n: "n < length ?q" and ok: "configured cfg \<longrightarrow> (\<forall>i \<le> n. post i = Inr ())"
      and pr: "\<forall>t\<in>set (take n ?q). con (WhaleAlert (alert_of t)) = Inr ()"
      and bad: "con (WhaleAlert (alert_of (?q ! n))) = Inl x"
    from ok have ok': "configured cfg \<longrightarrow> (\<forall>i \<le> n. post (0 + i) = Inr ())" by simp
    note r = display_loop_console_failure [where post = post and k = 0 and con = con,
        OF n ok' pr bad]
    from r show "posted (fst ?l)
        = (if configured cfg then map alert_of (take (Suc n) ?q) else [])" by simp
    from r show "alert_lines (fst ?l) = map alert_of (take (Suc n) ?q)" by simp
    from r show "snd ?l = Inl x" by simp
  }
qed

lemma three_whales_sorted:
  "sorted_reverse size_usd [whale_b, whale_c\<lparr>size_usd := 150000\<rparr>, whale_a]
     = [whale_a, whale_b, whale_c\<lparr>size_usd := 150000\<rparr>]"
  by (simp add: sorted_reverse_def whale_a_def whale_b_def whale_c_def)

lemma three_whales_alerted:
  "alerted 0 [whale_a, whale_b, whale_c\<lparr>size_usd := 150000\<rparr>]
     = [whale_a, whale_b, whale_c\<lparr>size_usd := 150000\<rparr>]"
  by (simp add: alerted_def ALERT_THRESHOLD_USD_def whale_a_def whale_b_def whale_c_def)

lemma tagged_whales_sorted:
  "sorted_reverse size_usd [whale_b\<lparr>market_label := ''B [/x]...''\<rparr>, whale_a]
     = [whale_a, whale_b\<lparr>market_label := ''B [/x]...''\<rparr>]"
  by (simp add: sorted_reverse_def whale_a_def whale_b_def)

lemma tagged_whales_alerted:
  "alerted 0 [whale_a, whale_b\<lparr>market_label := ''B [/x]...''\<rparr>]
     = [whale_a, whale_b\<lparr>market_label := ''B [/x]...''\<rparr>]"
  by (simp add: alerted_def ALERT_THRESHOLD_USD_def whale_a_def whale_b_def)

theorem alert_dispatch_counterexample:
  "display_loop prints_all with_token
     (\<lambda>k. if k = 1 then Inl (RequestError ''net'') else Inr ()) 0
     (sorted_reverse size_usd [whale_b, whale_c\<lparr>size_usd := 150000\<rparr>, whale_a]) 0
   = ([Post ''42'' (300000, ''A...''), Print (WhaleAlert (300000, ''A...'')),
       Post ''42'' (200000, ''B...'')],
      Inl (RequestError ''net''))
   \<and> display_loop rich_console with_token (\<lambda>k. Inr ()) 0
     (sorted_reverse size_usd
        [whale_b\<lparr>market_label := ''B [/x]...''\<rparr>, whale_c\<lparr>size_usd := 150000\<rparr>, whale_a]) 0
   = ([Post ''42'' (300000, ''A...''), Print (WhaleAlert (300000, ''A...'')),
       Post ''42'' (200000, ''B [/x]...''), Print (WhaleAlert (200000, ''B [/x]...''))],
      Inl MarkupError)"
  by (simp add: sorted_reverse_def whale_a_def whale_b_def whale_c_def ALERT_THRESHOLD_USD_def
        send_telegram_alert_def configured_def with_token_def alert_of_def call_def
        console_print_def then_py_def return_py_def prints_all_def rich_console_def)

theorem alert_dispatch_witness:
  "posted (fst (display_loop prints_all as_shipped (\<lambda>k. Inl (RequestError ''net'')) 0
      (sorted_reverse size_usd [whale_b, whale_c\<lparr>size_usd := 150000\<rparr>, whale_a]) 0)) = []
   \<and> posted (fst (display_loop prints_all with_token (\<lambda>k. Inr ()) 0
      (sorted_reverse size_usd [whale_b, whale_c\<lparr>size_usd := 150000\<rparr>, whale_a]) 0))
     = [(300000, ''A...''), (200000, ''B...''), (150000, ''C...'')]
   \<and> posted (fst (display_loop prints_all with_token
        (\<lambda>k. if k = 1 then Inl (RequestError ''net'') else Inr ()) 0
      (sorted_reverse size_usd [whale_b, whale_c\<lparr>size_usd := 150000\<rparr>, whale_a]) 0))
     = [(300000, ''A...''), (200000, ''B...'')]
   \<and> snd (display_loop rich_console as_shipped (\<lambda>k. Inr ()) 0
      (sorted_reverse size_usd [whale_b\<lparr>market_label := ''B [/x]...''\<rparr>, whale_a]) 0)
     = Inl MarkupError"
proof -
  let ?batch = "[whale_b, whale_c\<lparr>size_usd := 150000\<rparr>, whale_a]"
  let ?tagged = "[whale_b\<lparr>market_label := ''B [/x]...''\<rparr>, whale_a]"
  let ?fail = "\<lambda>k::nat. if k = 1 then Inl (RequestError ''net'') else (Inr () :: exn + unit)"
  have off: "\<not> configured as_shipped"
    by (simp add: configured_def as_shipped_def)
  have on: "configured with_token"
    by (simp add: configured_def with_token_def)
  have q: "alerted 0 (sorted_reverse size_usd ?batch)
      = [whale_a, whale_b, whale_c\<lparr>size_usd := 150000\<rparr>]"
    unfolding three_whales_sorted three_whales_alerted ..
  have qt: "alerted 0 (sorted_reverse size_usd ?tagged)
      = [whale_a, whale_b\<lparr>market_label := ''B [/x]...''\<rparr>]"
    unfolding tagged_whales_sorted tagged_whales_alerted ..
  have all: "\<forall>t\<in>set (alerted 0 (sorted_reverse size_usd ?batch)).
      prints_all (WhaleAlert (alert_of t)) = Inr ()"
    by (simp add: prints_all_def)
  have a: "posted (fst (display_loop prints_all as_shipped (\<lambda>k. Inl (RequestError ''net'')) 0
      (sorted_reverse size_usd ?batch) 0)) = []"
    using alert_dispatch [of as_shipped ?batch "\<lambda>k. Inl (RequestError ''net'')" prints_all]
      off all by simp
  have b: "posted (fst (display_loop prints_all with_token (\<lambda>k. Inr ()) 0
      (sorted_reverse size_usd ?batch) 0))
      = map alert_of (alerted 0 (sorted_reverse size_usd ?batch))"
    using alert_dispatch [of with_token ?batch "\<lambda>k. Inr ()" prints_all] on all by simp
  have "1 < length (alerted 0 (sorted_reverse size_usd ?batch))"
    unfolding q by simp
  moreover have "\<forall>i < 1. ?fail i = Inr ()" by simp
  moreover have "\<forall>t\<in>set (take 1 (alerted 0 (sorted_reverse size_usd ?batch))).
      prints_all (WhaleAlert (alert_of t)) = Inr ()"
    by (simp add: prints_all_def)
  moreover have "?fail 1 = Inl (RequestError ''net'')" by simp
  ultimately have c: "posted (fst (display_loop prints_all with_token ?fail 0
      (sorted_reverse size_usd ?batch) 0))
     = map alert_of (take (Suc 1) (alerted 0 (sorted_reverse size_usd ?batch)))"
    using alert_dispatch [of with_token ?batch ?fail prints_all 1 "RequestError ''net''"] on
    by blast
  have "1 < length (alerted 0 (sorted_reverse size_usd ?tagged))"
    unfolding qt by simp
  moreover have "\<forall>t\<in>set (take 1 (alerted 0 (sorted_reverse size_usd ?tagged))).
      rich_console (WhaleAlert (alert_of t)) = Inr ()"
    unfolding qt by (simp add: rich_console_def alert_of_def whale_a_def)
  moreover have "rich_console (WhaleAlert (alert_of
      (alerted 0 (sorted_reverse size_usd ?tagged) ! 1))) = Inl MarkupError"
    unfolding qt by (simp add: rich_console_def alert_of_def whale_b_def)
  ultimately have d: "snd (display_loop rich_console as_shipped (\<lambda>k. Inr ()) 0
      (sorted_reverse size_usd ?tagged) 0) = Inl MarkupError"
    using alert_dispatch [of as_shipped ?tagged "\<lambda>k. Inr ()" rich_console _ _ 1 MarkupError] off
    by blast
  have shown: "map alert_of (alerted 0 (sorted_reverse size_usd ?batch))
      = [(300000, ''A...''), (200000, ''B...''), (150000, ''C...'')]"
    unfolding q by (simp add: alert_of_def whale_a_def whale_b_def whale_c_def)
  have cut: "map alert_of (take (Suc 1) (alerted 0 (sorted_reverse size_usd ?batch)))
      = [(300000, ''A...''), (200000, ''B...'')]"
    unfolding q by (simp add: alert_of_def whale_a_def whale_b_def whale_c_def)
  from a b [unfolded shown] c [unfolded cut] d show ?thesis
    by (intro conjI)
qed

end
